theory Spec2Isabelle
  imports Main "HOL-Library.Word"
begin

unbundle bit_operations_syntax

section \<open>Python values\<close>

text \<open>
  A Python \<^verbatim>\<open>str\<close> is a sequence of Unicode code points, and \<^verbatim>\<open>len\<close> counts
  code points; it is modelled as a list of code point numbers. String literals of the
  source are written with \<open>py\<close>.
\<close>

type_synonym pystr = "nat list"

definition py :: "string \<Rightarrow> pystr" where
  "py s = map of_char s"

text \<open>
  \<^verbatim>\<open>str.isspace\<close> on one code point: the characters \<^verbatim>\<open>str.strip()\<close> removes when it
  is called without an argument (Unicode White\_Space, plus the four separators
  U+001C..U+001F).
\<close>

definition py_isspace :: "nat \<Rightarrow> bool" where
  "py_isspace c = (c \<in> set ([0x9, 0xA, 0xB, 0xC, 0xD, 0x1C, 0x1D, 0x1E, 0x1F, 0x20, 0x85, 0xA0,
      0x1680, 0x2000, 0x2001, 0x2002, 0x2003, 0x2004, 0x2005, 0x2006, 0x2007, 0x2008, 0x2009,
      0x200A, 0x2028, 0x2029, 0x202F, 0x205F, 0x3000]))"

definition strip :: "pystr \<Rightarrow> pystr" where
  "strip s = rev (dropWhile py_isspace (rev (dropWhile py_isspace s)))"

section \<open>Exceptions, requests and configuration\<close>

text \<open>
  The exceptions that reach a handler boundary. \<open>HTTPException\<close> carries
  \<^verbatim>\<open>status_code\<close> and \<^verbatim>\<open>detail\<close>; \<open>RateLimitExceeded\<close> is raised by the rate
  limiting decorator; \<open>RateLimitError\<close> and \<open>APIError\<close> by the generation client;
  \<open>OperationalError\<close> and \<open>OverflowError\<close> by the SQLite driver; \<open>IndexError\<close> by
  \<^verbatim>\<open>message.content[0]\<close> on an empty list; \<open>UnicodeEncodeError\<close> by \<^verbatim>\<open>str.encode\<close> and
  by the SQLite driver when it binds a text; \<open>RequestValidationError\<close> by the framework
  when a required form field is missing or empty.
\<close>

datatype exn =
    HTTPException nat pystr
  | RateLimitExceeded
  | RateLimitError
  | APIError
  | OperationalError
  | OverflowError
  | IndexError
  | UnicodeEncodeError
  | RequestValidationError

text \<open>
  What the handlers read of a \<^verbatim>\<open>Request\<close>: the value of the \<^verbatim>\<open>Authorization\<close> header
  (\<open>None\<close> when the header is absent) and \<^verbatim>\<open>request.client.host\<close> (\<open>None\<close> when the
  server gave no client address).
\<close>

record request =
  authorization :: "pystr option"
  client_host :: "pystr option"

text \<open>
  The process environment: \<^verbatim>\<open>ADMIN_KEY\<close> is read once with default \<^verbatim>\<open>""\<close>;
  \<^verbatim>\<open>ANTHROPIC_API_KEY\<close> is read with \<^verbatim>\<open>os.environ.get\<close>, which gives \<^verbatim>\<open>None\<close> when
  the variable is not set.
\<close>

record config =
  ADMIN_KEY :: pystr
  ANTHROPIC_API_KEY :: "pystr option"

section \<open>The admin guard\<close>

definition header_get :: "pystr option \<Rightarrow> pystr \<Rightarrow> pystr" where
  "header_get h dflt = (case h of None \<Rightarrow> dflt | Some v \<Rightarrow> v)"

definition verify_admin :: "config \<Rightarrow> request \<Rightarrow> exn + unit" where
  "verify_admin cfg req =
     (let auth = header_get (authorization req) [] in
      if ADMIN_KEY cfg = [] \<or> auth \<noteq> py ''Bearer '' @ ADMIN_KEY cfg
      then Inl (HTTPException 401 (py ''Unauthorized''))
      else Inr ())"

section \<open>SHA-256 and UTF-8 (\<^verbatim>\<open>hashlib.sha256(s.encode()).hexdigest()\<close>)\<close>

text \<open>
  \<^verbatim>\<open>str.encode()\<close> is UTF-8 and strict: a surrogate code point raises
  \<^verbatim>\<open>UnicodeEncodeError\<close>. Values above U+10FFFF are not code points of a Python string.
\<close>

type_synonym byte = "8 word"
type_synonym w32 = "32 word"

definition utf8_char :: "nat \<Rightarrow> byte list option" where
  "utf8_char c =
     (if c < 0x80 then Some [of_nat c]
      else if c < 0x800 then Some [of_nat (0xC0 + c div 64), of_nat (0x80 + c mod 64)]
      else if 0xD800 \<le> c \<and> c < 0xE000 then None
      else if c < 0x10000 then
        Some [of_nat (0xE0 + c div 4096), of_nat (0x80 + c div 64 mod 64), of_nat (0x80 + c mod 64)]
      else if c < 0x110000 then
        Some [of_nat (0xF0 + c div 262144), of_nat (0x80 + c div 4096 mod 64),
              of_nat (0x80 + c div 64 mod 64), of_nat (0x80 + c mod 64)]
      else None)"

fun utf8_encode :: "pystr \<Rightarrow> byte list option" where
  "utf8_encode [] = Some []"
| "utf8_encode (c # cs) =
     (case utf8_char c of
        None \<Rightarrow> None
      | Some bs \<Rightarrow> (case utf8_encode cs of None \<Rightarrow> None | Some rest \<Rightarrow> Some (bs @ rest)))"

text \<open>
  SHA-256 as FIPS 180-4 defines it: the message is padded to a multiple of 64 bytes, each
  block is expanded to 64 words and run through 64 rounds, and the eight state words are
  printed as 64 lowercase hexadecimal digits.
\<close>

definition rotr :: "nat \<Rightarrow> w32 \<Rightarrow> w32" where
  "rotr n x = (drop_bit n x) OR (push_bit (32 - n) x)"

definition Ch :: "w32 \<Rightarrow> w32 \<Rightarrow> w32 \<Rightarrow> w32" where
  "Ch x y z = (x AND y) XOR (NOT x AND z)"

definition Maj :: "w32 \<Rightarrow> w32 \<Rightarrow> w32 \<Rightarrow> w32" where
  "Maj x y z = (x AND y) XOR (x AND z) XOR (y AND z)"

definition Sigma0 :: "w32 \<Rightarrow> w32" where
  "Sigma0 x = rotr 2 x XOR rotr 13 x XOR rotr 22 x"

definition Sigma1 :: "w32 \<Rightarrow> w32" where
  "Sigma1 x = rotr 6 x XOR rotr 11 x XOR rotr 25 x"

definition sigma0 :: "w32 \<Rightarrow> w32" where
  "sigma0 x = rotr 7 x XOR rotr 18 x XOR drop_bit 3 x"

definition sigma1 :: "w32 \<Rightarrow> w32" where
  "sigma1 x = rotr 17 x XOR rotr 19 x XOR drop_bit 10 x"

definition K256 :: "w32 list" where
  "K256 = [
  0x428A2F98, 0x71374491, 0xB5C0FBCF, 0xE9B5DBA5, 0x3956C25B, 0x59F111F1, 0x923F82A4, 0xAB1C5ED5,
  0xD807AA98, 0x12835B01, 0x243185BE, 0x550C7DC3, 0x72BE5D74, 0x80DEB1FE, 0x9BDC06A7, 0xC19BF174,
  0xE49B69C1, 0xEFBE4786, 0x0FC19DC6, 0x240CA1CC, 0x2DE92C6F, 0x4A7484AA, 0x5CB0A9DC, 0x76F988DA,
  0x983E5152, 0xA831C66D, 0xB00327C8, 0xBF597FC7, 0xC6E00BF3, 0xD5A79147, 0x06CA6351, 0x14292967,
  0x27B70A85, 0x2E1B2138, 0x4D2C6DFC, 0x53380D13, 0x650A7354, 0x766A0ABB, 0x81C2C92E, 0x92722C85,
  0xA2BFE8A1, 0xA81A664B, 0xC24B8B70, 0xC76C51A3, 0xD192E819, 0xD6990624, 0xF40E3585, 0x106AA070,
  0x19A4C116, 0x1E376C08, 0x2748774C, 0x34B0BCB5, 0x391C0CB3, 0x4ED8AA4A, 0x5B9CCA4F, 0x682E6FF3,
  0x748F82EE, 0x78A5636F, 0x84C87814, 0x8CC70208, 0x90BEFFFA, 0xA4506CEB, 0xBEF9A3F7, 0xC67178F2]"

text \<open>
  Padding: the byte 0x80, zero bytes up to 56 modulo 64, and the length of the message in
  bits as eight big-endian bytes.
\<close>

definition be_bytes64 :: "64 word \<Rightarrow> byte list" where
  "be_bytes64 n = map (\<lambda>i. ucast (drop_bit (8 * (7 - i)) n)) [0..<8]"

definition pad :: "byte list \<Rightarrow> byte list" where
  "pad m = m @ [0x80] @ replicate ((64 - (length m + 9) mod 64) mod 64) 0
             @ be_bytes64 (of_nat (8 * length m))"

fun be_words :: "byte list \<Rightarrow> w32 list" where
  "be_words (a # b # c # d # rest) =
     (push_bit 24 (ucast a) OR push_bit 16 (ucast b) OR push_bit 8 (ucast c) OR ucast d) # be_words rest"
| "be_words _ = []"

fun schedule :: "nat \<Rightarrow> w32 list \<Rightarrow> w32 list" where
  "schedule 0 w = w"
| "schedule (Suc n) w =
     schedule n (w @ [sigma1 (w ! (length w - 2)) + w ! (length w - 7)
                      + sigma0 (w ! (length w - 15)) + w ! (length w - 16)])"

type_synonym hstate = "w32 \<times> w32 \<times> w32 \<times> w32 \<times> w32 \<times> w32 \<times> w32 \<times> w32"

fun sha_round :: "hstate \<Rightarrow> w32 \<times> w32 \<Rightarrow> hstate" where
  "sha_round (a, b, c, d, e, f, g, h) (k, w) =
     (let t1 = h + Sigma1 e + Ch e f g + k + w;
          t2 = Sigma0 a + Maj a b c
      in (t1 + t2, a, b, c, d + t1, e, f, g))"

fun add_state :: "hstate \<Rightarrow> hstate \<Rightarrow> hstate" where
  "add_state (a, b, c, d, e, f, g, h) (a', b', c', d', e', f', g', h') =
     (a + a', b + b', c + c', d + d', e + e', f + f', g + g', h + h')"

definition compress :: "hstate \<Rightarrow> byte list \<Rightarrow> hstate" where
  "compress s block = add_state s (foldl sha_round s (zip K256 (schedule 48 (be_words block))))"

function blocks :: "byte list \<Rightarrow> byte list list" where
  "blocks bs = (if length bs < 64 then [] else take 64 bs # blocks (drop 64 bs))"
  by pat_completeness auto
termination by (relation "measure length") auto

definition hex_digit :: "nat \<Rightarrow> nat" where
  "hex_digit d = (if d < 10 then 48 + d else 87 + d)"

definition hex32 :: "w32 \<Rightarrow> nat list" where
  "hex32 x = map (\<lambda>i. hex_digit (unat (drop_bit (4 * (7 - i)) x AND 0xF))) [0..<8]"

fun hex_state :: "hstate \<Rightarrow> nat list" where
  "hex_state (a, b, c, d, e, f, g, h) = concat (map hex32 [a, b, c, d, e, f, g, h])"

definition sha256_hexdigest :: "byte list \<Rightarrow> nat list" where
  "sha256_hexdigest m =
     hex_state (foldl compress
       (0x6A09E667, 0xBB67AE85, 0x3C6EF372, 0xA54FF53A, 0x510E527F, 0x9B05688C, 0x1F83D9AB, 0x5BE0CD19)
       (blocks (pad m)))"

text \<open>The characters \<^verbatim>\<open>hexdigest\<close> prints: \<^verbatim>\<open>0\<close> to \<^verbatim>\<open>9\<close> and \<^verbatim>\<open>a\<close> to \<^verbatim>\<open>f\<close>.\<close>

definition is_hexdigit :: "nat \<Rightarrow> bool" where
  "is_hexdigit c = ((48 \<le> c \<and> c \<le> 57) \<or> (97 \<le> c \<and> c \<le> 102))"

section \<open>The persistence store (\<^verbatim>\<open>database.py\<close>)\<close>

text \<open>
  The two tables. A table is the list of its rows in rowid order, which is the order of
  insertion: no statement of the program updates or deletes a row. \<^verbatim>\<open>created_at\<close> is
  filled by \<^verbatim>\<open>CURRENT_TIMESTAMP\<close>, a text \<^verbatim>\<open>YYYY-MM-DD HH:MM:SS\<close> with a resolution of
  one second; it is modelled as the number of whole seconds it denotes, which orders the
  same way as the text does.
\<close>

record thought_row =
  t_id :: int
  t_content :: pystr
  t_created_at :: nat

record question_row =
  q_id :: int
  q_question :: pystr
  q_answer :: pystr
  q_ip_hash :: pystr
  q_created_at :: nat

text \<open>
  The effects a handler has outside the process, in the order they happen: a request sent
  to the text generation API (with the user turn it carries) and a row written to a table.
\<close>

datatype effect =
    Provider_call pystr
  | Question_insert question_row
  | Thought_insert thought_row

text \<open>
  The state the handlers share: the two tables, the rate limiter's record of admitted
  requests (key and time of each) and the journal of effects.
\<close>

record world =
  thoughts :: "thought_row list"
  questions :: "question_row list"
  hits :: "(pystr \<times> nat) list"
  journal :: "effect list"

text \<open>
  What the surroundings do during one request: the clock (\<open>now\<close>, in seconds), whether
  the database file can be opened and written (\<^verbatim>\<open>aiosqlite\<close> raises otherwise), and the
  reply of the generation API to a request with a given key and user turn.
\<close>

datatype provider_reply =
    Message "pystr list"
  | Raises_RateLimitError
  | Raises_APIError

record ambient =
  now :: nat
  storage_ok :: bool
  provider :: "pystr \<Rightarrow> pystr \<Rightarrow> provider_reply"

text \<open>
  A Python integer bound to a statement parameter must fit SQLite's 64-bit INTEGER; the
  driver raises \<^verbatim>\<open>OverflowError\<close> otherwise.
\<close>

definition sqlite_int_ok :: "int \<Rightarrow> bool" where
  "sqlite_int_ok n = (- (2 ^ 63) \<le> n \<and> n < 2 ^ 63)"

text \<open>
  \<^verbatim>\<open>ORDER BY created_at DESC\<close>: rows with equal \<^verbatim>\<open>created_at\<close> stay in the order of the
  table scan (SQLite sorts on the key followed by the sequence number of the row).
  \<^verbatim>\<open>LIMIT n\<close>: at most \<open>n\<close> rows, and every row when \<open>n\<close> is negative.
\<close>

definition order_by_created_at_desc :: "thought_row list \<Rightarrow> thought_row list" where
  "order_by_created_at_desc rows = sort_key (\<lambda>r. - int (t_created_at r)) rows"

definition sql_limit :: "int \<Rightarrow> 'a list \<Rightarrow> 'a list" where
  "sql_limit n rows = (if n < 0 then rows else take (nat n) rows)"

definition get_thoughts :: "ambient \<Rightarrow> world \<Rightarrow> int \<Rightarrow> exn + thought_row list" where
  "get_thoughts amb w limit =
     (if \<not> storage_ok amb then Inl OperationalError
      else if \<not> sqlite_int_ok limit then Inl OverflowError
      else Inr (sql_limit limit (order_by_created_at_desc (thoughts w))))"

text \<open>
  A text bound to a statement parameter is encoded as UTF-8 by the driver, which raises
  \<^verbatim>\<open>UnicodeEncodeError\<close> when the text cannot be encoded (a lone surrogate); the
  statement is then not run.
\<close>

definition sqlite_text_ok :: "pystr \<Rightarrow> bool" where
  "sqlite_text_ok s = (utf8_encode s \<noteq> None)"

text \<open>\<^verbatim>\<open>AUTOINCREMENT\<close>: one more than the largest rowid the table has held.\<close>

definition next_rowid :: "int list \<Rightarrow> int" where
  "next_rowid ids = fold max ids 0 + 1"

definition add_thought :: "ambient \<Rightarrow> world \<Rightarrow> pystr \<Rightarrow> exn + int \<times> world" where
  "add_thought amb w content =
     (if \<not> storage_ok amb then Inl OperationalError
      else if \<not> sqlite_text_ok content then Inl UnicodeEncodeError
      else
        let row = \<lparr>t_id = next_rowid (map t_id (thoughts w)), t_content = content,
                   t_created_at = now amb\<rparr>
        in Inr (t_id row,
                w\<lparr>thoughts := thoughts w @ [row], journal := journal w @ [Thought_insert row]\<rparr>))"

definition log_question :: "ambient \<Rightarrow> world \<Rightarrow> pystr \<Rightarrow> pystr \<Rightarrow> pystr \<Rightarrow> exn + world" where
  "log_question amb w question answer ip_hash =
     (if \<not> storage_ok amb then Inl OperationalError
      else if \<not> (sqlite_text_ok question \<and> sqlite_text_ok answer \<and> sqlite_text_ok ip_hash)
        then Inl UnicodeEncodeError
      else
        let row = \<lparr>q_id = next_rowid (map q_id (questions w)), q_question = question,
                   q_answer = answer, q_ip_hash = ip_hash, q_created_at = now amb\<rparr>
        in Inr (w\<lparr>questions := questions w @ [row],
                  journal := journal w @ [Question_insert row]\<rparr>))"

text \<open>
  \<^verbatim>\<open>init_db\<close> creates the two tables when they do not exist: on a new database file the
  process starts with both empty, and the rate limiter starts empty with the process.
\<close>

definition init_world :: world where
  "init_world = \<lparr>thoughts = [], questions = [], hits = [], journal = []\<rparr>"

section \<open>The rate limiter\<close>

text \<open>
  \<^verbatim>\<open>get_remote_address\<close> (the limiter's key function, also what \<^verbatim>\<open>api_ask\<close> hashes):
  the client's host, or \<^verbatim>\<open>"127.0.0.1"\<close> when the request has none.
\<close>

definition get_remote_address :: "request \<Rightarrow> pystr" where
  "get_remote_address req =
     (case client_host req of
        None \<Rightarrow> py ''127.0.0.1''
      | Some h \<Rightarrow> if h = [] then py ''127.0.0.1'' else h)"

text \<open>
  Modelled from the spec: the counting done by \<^verbatim>\<open>Limiter.limit("3/minute")\<close>, which is
  code of the \<^verbatim>\<open>slowapi\<close> package and not of this repository. The spec: the limiter tracks
  request counts per client address over a sliding time window and rejects requests
  exceeding a threshold, 3 per rolling 60-second window. So a request is admitted, and
  recorded, when fewer than three requests of the same key were admitted during the 60
  seconds that end with it.
\<close>

definition window_hits :: "(pystr \<times> nat) list \<Rightarrow> pystr \<Rightarrow> nat \<Rightarrow> (pystr \<times> nat) list" where
  "window_hits hs key t = filter (\<lambda>(k, t'). k = key \<and> t < t' + 60) hs"

definition limiter_hit :: "(pystr \<times> nat) list \<Rightarrow> pystr \<Rightarrow> nat \<Rightarrow> bool \<times> (pystr \<times> nat) list" where
  "limiter_hit hs key t =
     (if length (window_hits hs key t) < 3 then (True, hs @ [(key, t)]) else (False, hs))"

section \<open>The request handlers (\<^verbatim>\<open>main.py\<close>)\<close>

text \<open>
  What a handler returns, before the framework serialises it: the rendered home page (its
  thoughts and the time), the JSON objects of the API, and the bodies of the error
  responses: \<^verbatim>\<open>{"detail": ...}\<close> for an \<^verbatim>\<open>HTTPException\<close>, \<^verbatim>\<open>{"error": ...}\<close> for the
  rate limit handler, the framework's list of validation errors, and the framework's own
  body for an exception nothing handles.
\<close>

datatype payload =
    Page "thought_row list" nat
  | Thoughts_json "thought_row list"
  | Created_json int
  | Answer_json pystr
  | Health_json nat
  | Detail_json pystr
  | Error_json pystr
  | Validation_errors_json
  | Internal_Server_Error

type_synonym response = "nat \<times> payload"

definition rate_limit_handler :: response where
  "rate_limit_handler =
     (429, Error_json (py ''Too many questions. I need time to think. Try again in a minute.''))"

text \<open>
  The handler boundary: a returned value is sent with status 200, an \<^verbatim>\<open>HTTPException\<close>
  with its status and detail, \<^verbatim>\<open>RateLimitExceeded\<close> goes to the handler registered for it,
  a failed validation of the request is a 422, and any other exception is a 500.
\<close>

fun respond :: "exn + payload \<Rightarrow> response" where
  "respond (Inr p) = (200, p)"
| "respond (Inl (HTTPException code detail)) = (code, Detail_json detail)"
| "respond (Inl RateLimitExceeded) = rate_limit_handler"
| "respond (Inl RequestValidationError) = (422, Validation_errors_json)"
| "respond (Inl _) = (500, Internal_Server_Error)"

definition home :: "ambient \<Rightarrow> world \<Rightarrow> exn + payload" where
  "home amb w =
     (case get_thoughts amb w 20 of
        Inl e \<Rightarrow> Inl e
      | Inr rows \<Rightarrow> Inr (Page rows (now amb)))"

definition api_get_thoughts :: "ambient \<Rightarrow> world \<Rightarrow> int \<Rightarrow> exn + payload" where
  "api_get_thoughts amb w limit =
     (case get_thoughts amb w (min limit 100) of
        Inl e \<Rightarrow> Inl e
      | Inr rows \<Rightarrow> Inr (Thoughts_json rows))"

definition api_add_thought ::
  "config \<Rightarrow> ambient \<Rightarrow> world \<Rightarrow> request \<Rightarrow> pystr \<Rightarrow> (exn + payload) \<times> world" where
  "api_add_thought cfg amb w req content =
     (case verify_admin cfg req of
        Inl e \<Rightarrow> (Inl e, w)
      | Inr _ \<Rightarrow>
          if strip content = [] then (Inl (HTTPException 400 (py ''Empty thought'')), w)
          else
            (case add_thought amb w (strip content) of
               Inl e \<Rightarrow> (Inl e, w)
             | Inr (thought_id, w') \<Rightarrow> (Inr (Created_json thought_id), w')))"

text \<open>
  The body of the \<^verbatim>\<open>try\<close> block of \<^verbatim>\<open>api_ask\<close>: the request to the generation API, the
  first block of the reply, the hash of the client address and the log row. The fixed
  arguments of the request (model, token limit, persona) play no part and are left out.
\<close>

definition ask_and_log ::
  "ambient \<Rightarrow> world \<Rightarrow> request \<Rightarrow> pystr \<Rightarrow> pystr \<Rightarrow> (exn + payload) \<times> world" where
  "ask_and_log amb w req api_key question =
     (let w1 = w\<lparr>journal := journal w @ [Provider_call question]\<rparr> in
      case provider amb api_key question of
        Raises_RateLimitError \<Rightarrow> (Inl RateLimitError, w1)
      | Raises_APIError \<Rightarrow> (Inl APIError, w1)
      | Message content \<Rightarrow>
          (case content of
             [] \<Rightarrow> (Inl IndexError, w1)
           | answer # _ \<Rightarrow>
               (case utf8_encode (get_remote_address req) of
                  None \<Rightarrow> (Inl UnicodeEncodeError, w1)
                | Some bytes \<Rightarrow>
                    let ip_hash = take 16 (sha256_hexdigest bytes) in
                    (case log_question amb w1 question answer ip_hash of
                       Inl e \<Rightarrow> (Inl e, w1)
                     | Inr w2 \<Rightarrow> (Inr (Answer_json answer), w2)))))"

text \<open>The function \<^verbatim>\<open>api_ask\<close> as written, without its decorators.\<close>

definition api_ask ::
  "config \<Rightarrow> ambient \<Rightarrow> world \<Rightarrow> request \<Rightarrow> pystr \<Rightarrow> (exn + payload) \<times> world" where
  "api_ask cfg amb w req question0 =
     (let question = strip question0 in
      if question = [] then (Inl (HTTPException 400 (py ''Empty question'')), w)
      else if length question > 500 then
        (Inl (HTTPException 400 (py ''Question too long (max 500 chars)'')), w)
      else
        (case ANTHROPIC_API_KEY cfg of
           None \<Rightarrow>
             (Inl (HTTPException 503 (py ''I'm not connected right now. Check back later.'')), w)
         | Some api_key \<Rightarrow>
             if api_key = [] then
               (Inl (HTTPException 503 (py ''I'm not connected right now. Check back later.'')), w)
             else
               (case ask_and_log amb w req api_key question of
                  (Inr p, w') \<Rightarrow> (Inr p, w')
                | (Inl RateLimitError, w') \<Rightarrow>
                    (Inl (HTTPException 429 (py ''I'm a bit overwhelmed. Try again in a moment.'')), w')
                | (Inl _, w') \<Rightarrow>
                    (Inl (HTTPException 500 (py ''Something went wrong in my thinking.'')), w'))))"

text \<open>
  \<^verbatim>\<open>@limiter.limit("3/minute")\<close> around \<^verbatim>\<open>api_ask\<close>: the limiter is asked first, with the
  client address as key, and raises \<^verbatim>\<open>RateLimitExceeded\<close> without calling the function
  when it does not admit the request.
\<close>

definition api_ask_limited ::
  "config \<Rightarrow> ambient \<Rightarrow> world \<Rightarrow> request \<Rightarrow> pystr \<Rightarrow> (exn + payload) \<times> world" where
  "api_ask_limited cfg amb w req question =
     (case limiter_hit (hits w) (get_remote_address req) (now amb) of
        (False, hs) \<Rightarrow> (Inl RateLimitExceeded, w\<lparr>hits := hs\<rparr>)
      | (True, hs) \<Rightarrow> api_ask cfg amb (w\<lparr>hits := hs\<rparr>) req question)"

definition health :: "ambient \<Rightarrow> exn + payload" where
  "health amb = Inr (Health_json (now amb))"

text \<open>
  The routes, with the parameters of the request: the optional \<^verbatim>\<open>limit\<close> of the query
  string (default 20) and the value of the form field \<^verbatim>\<open>content\<close> or \<^verbatim>\<open>question\<close>,
  \<open>[]\<close> when the field is empty or absent.
\<close>

datatype route =
    GET_root
  | GET_api_thoughts "int option"
  | POST_api_thoughts pystr
  | POST_api_ask pystr
  | GET_health

text \<open>
  \<^verbatim>\<open>content: str = Form(...)\<close> and \<^verbatim>\<open>question: str = Form(...)\<close> declare required form
  fields. The framework binds them before it calls the endpoint, the rate limiting
  wrapper included, and takes an empty value for a missing one: the request is then
  answered 422 and neither the wrapper nor the handler runs.
\<close>

fun dispatch ::
  "config \<Rightarrow> ambient \<Rightarrow> world \<Rightarrow> request \<Rightarrow> route \<Rightarrow> (exn + payload) \<times> world" where
  "dispatch cfg amb w req GET_root = (home amb w, w)"
| "dispatch cfg amb w req (GET_api_thoughts None) = (api_get_thoughts amb w 20, w)"
| "dispatch cfg amb w req (GET_api_thoughts (Some limit)) = (api_get_thoughts amb w limit, w)"
| "dispatch cfg amb w req (POST_api_thoughts content) =
     (if content = [] then (Inl RequestValidationError, w)
      else api_add_thought cfg amb w req content)"
| "dispatch cfg amb w req (POST_api_ask question) =
     (if question = [] then (Inl RequestValidationError, w)
      else api_ask_limited cfg amb w req question)"
| "dispatch cfg amb w req GET_health = (health amb, w)"

definition serve :: "config \<Rightarrow> world \<Rightarrow> ambient \<times> request \<times> route \<Rightarrow> response \<times> world" where
  "serve cfg w x =
     (case x of (amb, req, r) \<Rightarrow>
        (case dispatch cfg amb w req r of (out, w') \<Rightarrow> (respond out, w')))"

text \<open>The state after a sequence of requests, served one after the other.\<close>

fun serve_all :: "config \<Rightarrow> world \<Rightarrow> (ambient \<times> request \<times> route) list \<Rightarrow> world" where
  "serve_all cfg w [] = w"
| "serve_all cfg w (x # xs) = serve_all cfg (snd (serve cfg w x)) xs"

section \<open>Notions used in the properties\<close>

text \<open>
  A trimmed text is not empty and neither starts nor ends with a whitespace character;
  \<open>thoughts_trimmed\<close> says so of the content of every stored thought.
\<close>

definition trimmed :: "pystr \<Rightarrow> bool" where
  "trimmed s = (s \<noteq> [] \<and> \<not> py_isspace (hd s) \<and> \<not> py_isspace (last s))"

definition thoughts_trimmed :: "world \<Rightarrow> bool" where
  "thoughts_trimmed w = list_all (\<lambda>r. trimmed (t_content r)) (thoughts w)"

text \<open>
  A request is a question put to POST /api/ask from the client address \<open>a\<close>: one that
  reaches the rate limiter, its question field not being empty.
\<close>

fun asks_from :: "pystr \<Rightarrow> ambient \<times> request \<times> route \<Rightarrow> bool" where
  "asks_from a (amb, req, POST_api_ask q) = (q \<noteq> [] \<and> get_remote_address req = a)"
| "asks_from a (amb, req, r) = False"

section \<open>Surroundings for the examples\<close>

text \<open>
  Two generation APIs for the concrete examples: one that fails every request and one that
  answers every question with one text block holding the question itself.
\<close>

definition provider_down :: "pystr \<Rightarrow> pystr \<Rightarrow> provider_reply" where
  "provider_down api_key question = Raises_APIError"

definition provider_echo :: "pystr \<Rightarrow> pystr \<Rightarrow> provider_reply" where
  "provider_echo api_key question = Message [question]"

text \<open>
  Two stores for the examples: one with three thoughts, the second of them the newest,
  and one with \<open>n\<close> thoughts inserted one per second.
\<close>

definition three_thoughts :: world where
  "three_thoughts = init_world\<lparr>thoughts :=
     [\<lparr>t_id = 1, t_content = py ''one'', t_created_at = 5\<rparr>,
      \<lparr>t_id = 2, t_content = py ''two'', t_created_at = 9\<rparr>,
      \<lparr>t_id = 3, t_content = py ''three'', t_created_at = 7\<rparr>]\<rparr>"

definition many_thoughts :: "nat \<Rightarrow> thought_row list" where
  "many_thoughts n =
     map (\<lambda>i. \<lparr>t_id = int i + 1, t_content = py ''thought'', t_created_at = i\<rparr>) [0..<n]"

section \<open>Properties of the admin guard\<close>

lemma bearer_nonempty: "py ''Bearer '' @ k \<noteq> []"
  by (simp add: py_def)

lemma verify_admin_ok:
  "(verify_admin cfg req = Inr ()) =
     (ADMIN_KEY cfg \<noteq> [] \<and> authorization req = Some (py ''Bearer '' @ ADMIN_KEY cfg))"
proof -
  have "header_get (authorization req) [] = py ''Bearer '' @ ADMIN_KEY cfg
        \<longleftrightarrow> authorization req = Some (py ''Bearer '' @ ADMIN_KEY cfg)"
    using bearer_nonempty [of "ADMIN_KEY cfg"]
    by (cases "authorization req") (auto simp: header_get_def)
  then show ?thesis
    by (auto simp: verify_admin_def Let_def)
qed

lemma verify_admin_denied:
  "verify_admin cfg req = Inr () \<or>
   verify_admin cfg req = Inl (HTTPException 401 (py ''Unauthorized''))"
  by (simp add: verify_admin_def Let_def)

text \<open>
  C1. The admin guard succeeds exactly when the configured secret is non-empty and the
  Authorization header is present and equal to \<^verbatim>\<open>"Bearer "\<close> followed by the secret. In
  every other case, and in particular whenever the secret is empty, it raises
  \<^verbatim>\<open>HTTPException(401, "Unauthorized")\<close>.
\<close>

theorem verify_admin_iff:
  "(verify_admin cfg req = Inr ()) =
     (ADMIN_KEY cfg \<noteq> [] \<and> authorization req = Some (py ''Bearer '' @ ADMIN_KEY cfg))
   \<and> (verify_admin cfg req = Inr () \<or>
        verify_admin cfg req = Inl (HTTPException 401 (py ''Unauthorized'')))
   \<and> verify_admin (cfg\<lparr>ADMIN_KEY := []\<rparr>) req = Inl (HTTPException 401 (py ''Unauthorized''))"
  using verify_admin_ok [of cfg req] verify_admin_denied [of cfg req]
  by (simp add: verify_admin_def)

section \<open>Properties of \<^verbatim>\<open>strip\<close>\<close>

lemma strip_empty_iff: "strip s = [] \<longleftrightarrow> (\<forall>c\<in>set s. py_isspace c)"
proof
  assume "strip s = []"
  then have a: "\<forall>x\<in>set (dropWhile py_isspace s). py_isspace x"
    by (simp add: strip_def dropWhile_eq_Nil_conv)
  have "dropWhile py_isspace s = []"
  proof (rule ccontr)
    assume n: "dropWhile py_isspace s \<noteq> []"
    then have "\<not> py_isspace (hd (dropWhile py_isspace s))" by (rule hd_dropWhile)
    with a n show False using hd_in_set by blast
  qed
  then show "\<forall>c\<in>set s. py_isspace c" by (metis dropWhile_eq_Nil_conv)
next
  assume "\<forall>c\<in>set s. py_isspace c"
  then have "dropWhile py_isspace s = []" by (induction s) auto
  then show "strip s = []" by (simp add: strip_def del: dropWhile_eq_Nil_conv)
qed

lemma strip_no_outer_space:
  assumes "strip s \<noteq> []"
  shows "\<not> py_isspace (hd (strip s)) \<and> \<not> py_isspace (last (strip s))"
proof -
  define d where "d = dropWhile py_isspace s"
  define e where "e = dropWhile py_isspace (rev d)"
  have s: "strip s = rev e" by (simp add: strip_def d_def e_def)
  with assms have e: "e \<noteq> []" by simp
  then have "\<not> py_isspace (hd e)" unfolding e_def by (rule hd_dropWhile)
  moreover have "last (strip s) = hd e" using e s by (simp add: last_rev)
  moreover have "d \<noteq> []" using e by (auto simp: e_def)
  then have "\<not> py_isspace (hd d)" unfolding d_def by (rule hd_dropWhile)
  moreover have "hd (strip s) = hd d"
  proof -
    obtain ys where "rev d = ys @ e"
      unfolding e_def by (metis takeWhile_dropWhile_id)
    then have "d = rev e @ rev ys" by (metis rev_append rev_rev_ident)
    then show ?thesis using e s by simp
  qed
  ultimately show ?thesis by simp
qed

lemma respond_http: "respond (Inl (HTTPException c d)) = (c, Detail_json d)" by simp

section \<open>Adding a thought\<close>

lemma strip_nonempty: "strip s \<noteq> [] \<Longrightarrow> s \<noteq> []"
  by (auto simp: strip_def)

lemma serve_add_thought:
  "content \<noteq> [] \<Longrightarrow>
   serve cfg w (amb, req, POST_api_thoughts content)
     = (respond (fst (api_add_thought cfg amb w req content)),
        snd (api_add_thought cfg amb w req content))"
  by (simp add: serve_def split: prod.splits)

lemma serve_add_thought_empty:
  "serve cfg w (amb, req, POST_api_thoughts []) = ((422, Validation_errors_json), w)"
  by (simp add: serve_def)

text \<open>
  C6, as amended. A request to POST /api/thoughts whose content field is not empty is
  answered 401 when it has no valid admin credential, whatever the content is, and 400
  when it has a valid credential and the content consists of whitespace only. A request
  whose content field is empty or absent is answered 422, with or without a credential.
  In all three cases the state is left as it was, so no row is inserted.
\<close>

theorem api_add_thought_rejects:
  "(content \<noteq> [] \<and>
    \<not> (ADMIN_KEY cfg \<noteq> [] \<and> authorization req = Some (py ''Bearer '' @ ADMIN_KEY cfg)) \<longrightarrow>
      serve cfg w (amb, req, POST_api_thoughts content)
        = ((401, Detail_json (py ''Unauthorized'')), w))
   \<and> (content \<noteq> [] \<and>
       ADMIN_KEY cfg \<noteq> [] \<and> authorization req = Some (py ''Bearer '' @ ADMIN_KEY cfg)
        \<and> (\<forall>c\<in>set content. py_isspace c) \<longrightarrow>
      serve cfg w (amb, req, POST_api_thoughts content)
        = ((400, Detail_json (py ''Empty thought'')), w))
   \<and> serve cfg w (amb, req, POST_api_thoughts []) = ((422, Validation_errors_json), w)"
proof -
  have v: "(verify_admin cfg req = Inr ()) =
     (ADMIN_KEY cfg \<noteq> [] \<and> authorization req = Some (py ''Bearer '' @ ADMIN_KEY cfg))"
    and e: "verify_admin cfg req = Inr () \<or>
        verify_admin cfg req = Inl (HTTPException 401 (py ''Unauthorized''))"
    using verify_admin_ok [of cfg req] verify_admin_denied [of cfg req] by blast+
  show ?thesis
    using v e
    by (auto simp: serve_add_thought serve_add_thought_empty api_add_thought_def strip_empty_iff)
qed

theorem api_add_thought_rejects_witness:
  "serve \<lparr>ADMIN_KEY = py ''s3cret'', ANTHROPIC_API_KEY = None\<rparr> init_world
     (\<lparr>now = 0, storage_ok = True, provider = provider_down\<rparr>,
      \<lparr>authorization = None, client_host = None\<rparr>,
      POST_api_thoughts (py ''a thought''))
     = ((401, Detail_json (py ''Unauthorized'')), init_world)
   \<and> serve \<lparr>ADMIN_KEY = py ''s3cret'', ANTHROPIC_API_KEY = None\<rparr> init_world
     (\<lparr>now = 0, storage_ok = True, provider = provider_down\<rparr>,
      \<lparr>authorization = Some (py ''Bearer s3cret''), client_host = None\<rparr>,
      POST_api_thoughts (py ''  ''))
     = ((400, Detail_json (py ''Empty thought'')), init_world)"
  using
    api_add_thought_rejects [of "py ''a thought''"
      "\<lparr>ADMIN_KEY = py ''s3cret'', ANTHROPIC_API_KEY = None\<rparr>"
      "\<lparr>authorization = None, client_host = None\<rparr>" init_world
      "\<lparr>now = 0, storage_ok = True, provider = provider_down\<rparr>"]
    api_add_thought_rejects [of "py ''  ''"
      "\<lparr>ADMIN_KEY = py ''s3cret'', ANTHROPIC_API_KEY = None\<rparr>"
      "\<lparr>authorization = Some (py ''Bearer s3cret''), client_host = None\<rparr>" init_world
      "\<lparr>now = 0, storage_ok = True, provider = provider_down\<rparr>"]
  by (simp add: py_def py_isspace_def)

text \<open>
  C6 as stated does not hold for a request whose content field is empty: the framework
  answers it 422 before \<^verbatim>\<open>verify_admin\<close> and the test of the content run. Without a
  credential the answer is 422 and not 401; with a valid credential it is 422 and not 400.
\<close>

theorem api_add_thought_rejects_counterexample:
  "serve \<lparr>ADMIN_KEY = py ''s3cret'', ANTHROPIC_API_KEY = None\<rparr> init_world
     (\<lparr>now = 0, storage_ok = True, provider = provider_down\<rparr>,
      \<lparr>authorization = None, client_host = None\<rparr>,
      POST_api_thoughts [])
     = ((422, Validation_errors_json), init_world)
   \<and> serve \<lparr>ADMIN_KEY = py ''s3cret'', ANTHROPIC_API_KEY = None\<rparr> init_world
     (\<lparr>now = 0, storage_ok = True, provider = provider_down\<rparr>,
      \<lparr>authorization = Some (py ''Bearer s3cret''), client_host = None\<rparr>,
      POST_api_thoughts [])
     = ((422, Validation_errors_json), init_world)"
  by (simp add: serve_def)

section \<open>The digest written to the log\<close>

lemma length_hex32: "length (hex32 x) = 8"
  by (simp add: hex32_def)

lemma length_hex_state: "length (hex_state s) = 64"
  by (cases s rule: hex_state.cases) (simp add: length_hex32)

lemma length_sha256_hexdigest: "length (sha256_hexdigest m) = 64"
  by (simp add: sha256_hexdigest_def length_hex_state)

lemma hex_digit_range: "d < 16 \<Longrightarrow> is_hexdigit (hex_digit d)"
  by (auto simp: hex_digit_def is_hexdigit_def)

lemma nibble_less: "unat ((x :: w32) AND 0xF) < 16"
proof -
  have "x AND 0xF \<le> 0xF" by (rule word_and_le1)
  then have "unat (x AND 0xF) \<le> unat (0xF :: w32)" by (simp only: word_le_nat_alt)
  then show ?thesis by simp
qed

lemma hex32_digits: "list_all is_hexdigit (hex32 x)"
  by (simp add: hex32_def list_all_iff hex_digit_range nibble_less)

lemma hex_state_digits: "list_all is_hexdigit (hex_state s)"
  by (cases s rule: hex_state.cases) (simp add: hex32_digits)

lemma sha256_hexdigest_digits: "list_all is_hexdigit (sha256_hexdigest m)"
  by (simp add: sha256_hexdigest_def hex_state_digits)

lemma ip_hash_shape:
  "length (take 16 (sha256_hexdigest m)) = 16 \<and> list_all is_hexdigit (take 16 (sha256_hexdigest m))"
  using sha256_hexdigest_digits [of m]
  by (auto simp: length_sha256_hexdigest list_all_iff dest: in_set_takeD)

lemma utf8_encode_ascii: "\<forall>c\<in>set s. c < 128 \<Longrightarrow> utf8_encode s \<noteq> None"
  by (induction s) (auto simp: utf8_char_def)

lemma hexdigits_text_ok: "list_all is_hexdigit s \<Longrightarrow> sqlite_text_ok s"
  unfolding sqlite_text_ok_def
  by (rule utf8_encode_ascii) (auto simp: list_all_iff is_hexdigit_def)

lemma ip_hash_text_ok: "sqlite_text_ok (take 16 (sha256_hexdigest m))"
  using ip_hash_shape [of m] by (simp add: hexdigits_text_ok)

text \<open>
  The definition computes the digest of the nine bytes of \<^verbatim>\<open>127.0.0.1\<close>, the address
  \<^verbatim>\<open>get_remote_address\<close> falls back to, as \<^verbatim>\<open>hashlib\<close> prints it.
\<close>

lemma sha256_hexdigest_localhost:
  "sha256_hexdigest [49, 50, 55, 46, 48, 46, 48, 46, 49]
     = py ''12ca17b49af2289436f303e0166030a21e525d266e209267433801a8fd4071a0''"
  by code_simp

section \<open>Asking a question\<close>

lemma limited_admitted:
  "fst (limiter_hit (hits w) (get_remote_address req) (now amb)) \<Longrightarrow>
   api_ask_limited cfg amb w req q =
     api_ask cfg amb (w\<lparr>hits := hits w @ [(get_remote_address req, now amb)]\<rparr>) req q"
  by (simp add: api_ask_limited_def limiter_hit_def split: if_splits)

lemma limited_rejected:
  "\<not> fst (limiter_hit (hits w) (get_remote_address req) (now amb)) \<Longrightarrow>
   api_ask_limited cfg amb w req q = (Inl RateLimitExceeded, w)"
  by (simp add: api_ask_limited_def limiter_hit_def split: if_splits)

lemma serve_ask:
  "question \<noteq> [] \<Longrightarrow>
   serve cfg w (amb, req, POST_api_ask question)
     = (respond (fst (api_ask_limited cfg amb w req question)),
        snd (api_ask_limited cfg amb w req question))"
  by (simp add: serve_def split: prod.splits)

lemma serve_ask_empty:
  "serve cfg w (amb, req, POST_api_ask []) = ((422, Validation_errors_json), w)"
  by (simp add: serve_def)

lemma api_ask_empty:
  "strip q = [] \<Longrightarrow> api_ask cfg amb w req q = (Inl (HTTPException 400 (py ''Empty question'')), w)"
  by (simp add: api_ask_def)

lemma api_ask_too_long:
  "500 < length (strip q) \<Longrightarrow>
   api_ask cfg amb w req q = (Inl (HTTPException 400 (py ''Question too long (max 500 chars)'')), w)"
  by (auto simp: api_ask_def Let_def)

lemma api_ask_no_key:
  "strip q \<noteq> [] \<Longrightarrow> length (strip q) \<le> 500 \<Longrightarrow>
   ANTHROPIC_API_KEY cfg = None \<or> ANTHROPIC_API_KEY cfg = Some [] \<Longrightarrow>
   api_ask cfg amb w req q =
     (Inl (HTTPException 503 (py ''I'm not connected right now. Check back later.'')), w)"
  by (auto simp: api_ask_def Let_def)

lemma api_ask_with_key:
  "strip q \<noteq> [] \<Longrightarrow> length (strip q) \<le> 500 \<Longrightarrow> ANTHROPIC_API_KEY cfg = Some k \<Longrightarrow> k \<noteq> [] \<Longrightarrow>
   api_ask cfg amb w req q =
     (case ask_and_log amb w req k (strip q) of
        (Inr p, w') \<Rightarrow> (Inr p, w')
      | (Inl RateLimitError, w') \<Rightarrow>
          (Inl (HTTPException 429 (py ''I'm a bit overwhelmed. Try again in a moment.'')), w')
      | (Inl _, w') \<Rightarrow>
          (Inl (HTTPException 500 (py ''Something went wrong in my thinking.'')), w'))"
  by (simp add: api_ask_def Let_def)

lemma ask_and_log_journal:
  "\<exists>rest. journal (snd (ask_and_log amb w req k q)) = journal w @ Provider_call q # rest"
  by (auto simp: ask_and_log_def log_question_def Let_def
      split: provider_reply.splits list.splits option.splits)

lemma ask_and_log_frame:
  "thoughts (snd (ask_and_log amb w req k q)) = thoughts w \<and>
   hits (snd (ask_and_log amb w req k q)) = hits w"
  by (auto simp: ask_and_log_def log_question_def Let_def
      split: provider_reply.splits list.splits option.splits)

lemma ask_and_log_ok:
  assumes "ask_and_log amb w req k q = (Inr p, w')"
  shows "\<exists>row bytes content.
      p = Answer_json (q_answer row)
    \<and> provider amb k q = Message (q_answer row # content)
    \<and> utf8_encode (get_remote_address req) = Some bytes
    \<and> q_question row = q
    \<and> q_ip_hash row = take 16 (sha256_hexdigest bytes)
    \<and> questions w' = questions w @ [row]
    \<and> journal w' = journal w @ [Provider_call q, Question_insert row]
    \<and> thoughts w' = thoughts w \<and> hits w' = hits w"
  using assms
  by (auto simp: ask_and_log_def log_question_def Let_def
      split: provider_reply.splits list.splits option.splits if_splits)

lemma api_ask_status:
  "api_ask cfg amb w req q = (Inl e, w') \<Longrightarrow> \<exists>c d. e = HTTPException c d \<and> c \<in> {400, 429, 500, 503}"
  by (auto simp: api_ask_def Let_def split: if_splits option.splits prod.splits sum.splits exn.splits)

lemma api_ask_ok:
  assumes "api_ask cfg amb w req q = (Inr p, w')"
  shows "\<exists>k. ANTHROPIC_API_KEY cfg = Some k \<and> k \<noteq> [] \<and> strip q \<noteq> [] \<and> length (strip q) \<le> 500
          \<and> ask_and_log amb w req k (strip q) = (Inr p, w')"
  using assms
  by (auto simp: api_ask_def Let_def split: if_splits option.splits prod.splits sum.splits exn.splits)

text \<open>
  C4, as amended. For a request to POST /api/ask whose question field is not empty and
  which the rate limiter admits: a question that consists of whitespace only is answered
  400, and so is a question whose trimmed length exceeds 500 (501 included); in both cases
  no request is sent to the generation API and no row is written. A question whose trimmed
  length is exactly 500 is not answered 400, and when a credential is configured it is
  sent to the generation API.
\<close>

theorem api_ask_validation:
  assumes "question \<noteq> []"
    and "fst (limiter_hit (hits w) (get_remote_address req) (now amb))"
  shows
    "((\<forall>c\<in>set question. py_isspace c) \<longrightarrow>
        fst (serve cfg w (amb, req, POST_api_ask question)) = (400, Detail_json (py ''Empty question''))
        \<and> journal (snd (serve cfg w (amb, req, POST_api_ask question))) = journal w
        \<and> questions (snd (serve cfg w (amb, req, POST_api_ask question))) = questions w
        \<and> thoughts (snd (serve cfg w (amb, req, POST_api_ask question))) = thoughts w)
   \<and> (500 < length (strip question) \<longrightarrow>
        fst (serve cfg w (amb, req, POST_api_ask question))
          = (400, Detail_json (py ''Question too long (max 500 chars)''))
        \<and> journal (snd (serve cfg w (amb, req, POST_api_ask question))) = journal w
        \<and> questions (snd (serve cfg w (amb, req, POST_api_ask question))) = questions w
        \<and> thoughts (snd (serve cfg w (amb, req, POST_api_ask question))) = thoughts w)
   \<and> (length (strip question) = 500 \<longrightarrow>
        fst (fst (serve cfg w (amb, req, POST_api_ask question))) \<noteq> 400
        \<and> (\<forall>k. ANTHROPIC_API_KEY cfg = Some k \<and> k \<noteq> [] \<longrightarrow>
              (\<exists>rest. journal (snd (serve cfg w (amb, req, POST_api_ask question)))
                 = journal w @ Provider_call (strip question) # rest)))"
proof -
  let ?w1 = "w\<lparr>hits := hits w @ [(get_remote_address req, now amb)]\<rparr>"
  have lim: "api_ask_limited cfg amb w req question = api_ask cfg amb ?w1 req question"
    using assms(2) by (rule limited_admitted)
  have serve: "serve cfg w (amb, req, POST_api_ask question)
      = (respond (fst (api_ask cfg amb ?w1 req question)), snd (api_ask cfg amb ?w1 req question))"
    using assms(1) by (simp add: serve_ask lim)
  have a: "(\<forall>c\<in>set question. py_isspace c) \<longrightarrow>
      api_ask cfg amb ?w1 req question = (Inl (HTTPException 400 (py ''Empty question'')), ?w1)"
    using api_ask_empty [of question cfg amb ?w1 req] by (simp add: strip_empty_iff)
  have b: "500 < length (strip question) \<longrightarrow>
      api_ask cfg amb ?w1 req question
        = (Inl (HTTPException 400 (py ''Question too long (max 500 chars)'')), ?w1)"
    using api_ask_too_long [of question cfg amb ?w1 req] by simp
  have c1: "fst (respond (fst (api_ask cfg amb ?w1 req question))) \<noteq> 400"
    if l: "length (strip question) = 500"
  proof (cases "ANTHROPIC_API_KEY cfg = None \<or> ANTHROPIC_API_KEY cfg = Some []")
    case True
    from l have "strip question \<noteq> []" by auto
    with l True show ?thesis
      using api_ask_no_key [of question cfg amb ?w1 req] by simp
  next
    case False
    then obtain k where k: "ANTHROPIC_API_KEY cfg = Some k" "k \<noteq> []" by auto
    from l have "strip question \<noteq> []" by auto
    with l k show ?thesis
      using api_ask_with_key [of question cfg k amb ?w1 req]
      by (auto split: prod.splits sum.splits exn.splits)
  qed
  have c2: "\<exists>rest. journal (snd (api_ask cfg amb ?w1 req question))
                 = journal w @ Provider_call (strip question) # rest"
    if l: "length (strip question) = 500" and k: "ANTHROPIC_API_KEY cfg = Some k" "k \<noteq> []" for k
  proof -
    from l have ne: "strip question \<noteq> []" by auto
    have "snd (api_ask cfg amb ?w1 req question) = snd (ask_and_log amb ?w1 req k (strip question))"
      using api_ask_with_key [of question cfg k amb ?w1 req] l k ne
      by (auto split: prod.splits sum.splits exn.splits)
    then show ?thesis
      using ask_and_log_journal [of amb ?w1 req k "strip question"] by simp
  qed
  show ?thesis
    using a b c1 c2 by (simp add: serve)
qed

theorem api_ask_validation_witness:
  "fst (serve \<lparr>ADMIN_KEY = [], ANTHROPIC_API_KEY = None\<rparr> init_world
      (\<lparr>now = 0, storage_ok = True, provider = provider_down\<rparr>,
       \<lparr>authorization = None, client_host = None\<rparr>, POST_api_ask (py ''  '')))
     = (400, Detail_json (py ''Empty question''))
   \<and> fst (serve \<lparr>ADMIN_KEY = [], ANTHROPIC_API_KEY = None\<rparr> init_world
      (\<lparr>now = 0, storage_ok = True, provider = provider_down\<rparr>,
       \<lparr>authorization = None, client_host = None\<rparr>, POST_api_ask (replicate 501 97)))
     = (400, Detail_json (py ''Question too long (max 500 chars)''))
   \<and> fst (fst (serve \<lparr>ADMIN_KEY = [], ANTHROPIC_API_KEY = None\<rparr> init_world
      (\<lparr>now = 0, storage_ok = True, provider = provider_down\<rparr>,
       \<lparr>authorization = None, client_host = None\<rparr>, POST_api_ask (replicate 500 97)))) \<noteq> 400"
proof -
  have adm: "fst (limiter_hit (hits init_world)
      (get_remote_address \<lparr>authorization = None, client_host = None\<rparr>)
      (now \<lparr>now = 0, storage_ok = True, provider = provider_down\<rparr>))"
    by (simp add: limiter_hit_def window_hits_def init_world_def)
  have s500: "strip (replicate 500 97) = replicate 500 97"
    and s501: "strip (replicate 501 97) = replicate 501 97"
    by (simp_all add: strip_def py_isspace_def)
  have n1: "py ''  '' \<noteq> []" and n2: "replicate 501 (97::nat) \<noteq> []"
    and n3: "replicate 500 (97::nat) \<noteq> []"
    by (simp_all add: py_def)
  show ?thesis
    using api_ask_validation [OF n1 adm, of "\<lparr>ADMIN_KEY = [], ANTHROPIC_API_KEY = None\<rparr>"]
      api_ask_validation [OF n2 adm, of "\<lparr>ADMIN_KEY = [], ANTHROPIC_API_KEY = None\<rparr>"]
      api_ask_validation [OF n3 adm, of "\<lparr>ADMIN_KEY = [], ANTHROPIC_API_KEY = None\<rparr>"]
    by (simp add: s500 s501 py_def py_isspace_def)
qed

text \<open>
  C4 as stated does not hold on two inputs. A request whose question field is empty is
  answered 422 by the framework, not 400. And the rate limiter comes before the
  validation: the fourth question of one client within four seconds is answered 429, not
  400, when it consists of whitespace only.
\<close>

theorem api_ask_validation_counterexample:
  "fst (serve \<lparr>ADMIN_KEY = [], ANTHROPIC_API_KEY = None\<rparr> init_world
      (\<lparr>now = 0, storage_ok = True, provider = provider_down\<rparr>,
       \<lparr>authorization = None, client_host = None\<rparr>, POST_api_ask []))
     = (422, Validation_errors_json)
   \<and> fst (serve \<lparr>ADMIN_KEY = [], ANTHROPIC_API_KEY = None\<rparr>
         (serve_all \<lparr>ADMIN_KEY = [], ANTHROPIC_API_KEY = None\<rparr> init_world
            [(\<lparr>now = 0, storage_ok = True, provider = provider_down\<rparr>,
              \<lparr>authorization = None, client_host = None\<rparr>, POST_api_ask (py ''  '')),
             (\<lparr>now = 1, storage_ok = True, provider = provider_down\<rparr>,
              \<lparr>authorization = None, client_host = None\<rparr>, POST_api_ask (py ''  '')),
             (\<lparr>now = 2, storage_ok = True, provider = provider_down\<rparr>,
              \<lparr>authorization = None, client_host = None\<rparr>, POST_api_ask (py ''  ''))])
         (\<lparr>now = 3, storage_ok = True, provider = provider_down\<rparr>,
          \<lparr>authorization = None, client_host = None\<rparr>, POST_api_ask (py ''  '')))
     = (429, Error_json (py ''Too many questions. I need time to think. Try again in a minute.''))"
  by (simp add: serve_def api_ask_limited_def limiter_hit_def window_hits_def init_world_def
      get_remote_address_def api_ask_def strip_def py_def py_isspace_def Let_def
      rate_limit_handler_def)

text \<open>
  C3, as amended. For a request to POST /api/ask that the rate limiter admits, with a
  question that passes validation: when no credential for the generation API is
  configured (the variable is unset or empty) the answer is 503, no request is sent to the
  generation API and no row is written.
\<close>

theorem api_ask_no_credential:
  assumes "fst (limiter_hit (hits w) (get_remote_address req) (now amb))"
    and "strip question \<noteq> []" and "length (strip question) \<le> 500"
    and "ANTHROPIC_API_KEY cfg = None \<or> ANTHROPIC_API_KEY cfg = Some []"
  shows "fst (serve cfg w (amb, req, POST_api_ask question))
           = (503, Detail_json (py ''I'm not connected right now. Check back later.''))
       \<and> journal (snd (serve cfg w (amb, req, POST_api_ask question))) = journal w
       \<and> questions (snd (serve cfg w (amb, req, POST_api_ask question))) = questions w
       \<and> thoughts (snd (serve cfg w (amb, req, POST_api_ask question))) = thoughts w"
  using assms(2-4) strip_nonempty [OF assms(2)]
  by (simp add: serve_ask limited_admitted [OF assms(1)] api_ask_no_key)

theorem api_ask_no_credential_witness:
  "fst (serve \<lparr>ADMIN_KEY = [], ANTHROPIC_API_KEY = None\<rparr> init_world
      (\<lparr>now = 0, storage_ok = True, provider = provider_down\<rparr>,
       \<lparr>authorization = None, client_host = None\<rparr>, POST_api_ask (py ''What is time?'')))
     = (503, Detail_json (py ''I'm not connected right now. Check back later.''))
   \<and> journal (snd (serve \<lparr>ADMIN_KEY = [], ANTHROPIC_API_KEY = None\<rparr> init_world
      (\<lparr>now = 0, storage_ok = True, provider = provider_down\<rparr>,
       \<lparr>authorization = None, client_host = None\<rparr>, POST_api_ask (py ''What is time?'')))) = []
   \<and> questions (snd (serve \<lparr>ADMIN_KEY = [], ANTHROPIC_API_KEY = None\<rparr> init_world
      (\<lparr>now = 0, storage_ok = True, provider = provider_down\<rparr>,
       \<lparr>authorization = None, client_host = None\<rparr>, POST_api_ask (py ''What is time?'')))) = []"
proof -
  have adm: "fst (limiter_hit (hits init_world)
      (get_remote_address \<lparr>authorization = None, client_host = None\<rparr>)
      (now \<lparr>now = 0, storage_ok = True, provider = provider_down\<rparr>))"
    by (simp add: limiter_hit_def window_hits_def init_world_def)
  have s: "strip (py ''What is time?'') = py ''What is time?''"
    by (simp add: strip_def py_def py_isspace_def)
  have ne: "strip (py ''What is time?'') \<noteq> []" and le: "length (strip (py ''What is time?'')) \<le> 500"
    by (simp_all add: s) (simp_all add: py_def)
  show ?thesis
    using api_ask_no_credential [OF adm ne le, of "\<lparr>ADMIN_KEY = [], ANTHROPIC_API_KEY = None\<rparr>"]
    by (simp add: init_world_def)
qed

text \<open>
  C3 as stated does not hold: the rate limiter comes first. With no credential configured,
  the fourth valid question of one client within four seconds is answered 429, not 503.
\<close>

theorem api_ask_no_credential_counterexample:
  "fst (serve \<lparr>ADMIN_KEY = [], ANTHROPIC_API_KEY = None\<rparr>
         (serve_all \<lparr>ADMIN_KEY = [], ANTHROPIC_API_KEY = None\<rparr> init_world
            [(\<lparr>now = 0, storage_ok = True, provider = provider_down\<rparr>,
              \<lparr>authorization = None, client_host = None\<rparr>, POST_api_ask (py ''What is time?'')),
             (\<lparr>now = 1, storage_ok = True, provider = provider_down\<rparr>,
              \<lparr>authorization = None, client_host = None\<rparr>, POST_api_ask (py ''What is time?'')),
             (\<lparr>now = 2, storage_ok = True, provider = provider_down\<rparr>,
              \<lparr>authorization = None, client_host = None\<rparr>, POST_api_ask (py ''What is time?''))])
         (\<lparr>now = 3, storage_ok = True, provider = provider_down\<rparr>,
          \<lparr>authorization = None, client_host = None\<rparr>, POST_api_ask (py ''What is time?'')))
     = (429, Error_json (py ''Too many questions. I need time to think. Try again in a minute.''))"
  by (simp add: serve_def api_ask_limited_def limiter_hit_def window_hits_def init_world_def
      get_remote_address_def api_ask_def strip_def py_def py_isspace_def Let_def
      rate_limit_handler_def)

text \<open>
  C2. When a request to POST /api/ask is answered 200, the body is the first text block of
  the generation API's reply, and exactly one row has been added to the question log. The
  journal shows the order: first the request to the generation API, then the row, and
  nothing else; the response is returned with the state that holds both. The row has the
  trimmed question, the answer, and as \<^verbatim>\<open>ip_hash\<close> the first 16 characters of the
  hexadecimal SHA-256 digest of the UTF-8 bytes of the client address: 16 lowercase
  hexadecimal digits, different from the address unless the address is itself a string of
  16 such digits (no dotted or colon-separated network address is).
\<close>

theorem api_ask_logs_once:
  assumes "serve cfg w (amb, req, POST_api_ask question) = ((200, p), w')"
  shows "\<exists>row bytes k content.
      p = Answer_json (q_answer row)
    \<and> ANTHROPIC_API_KEY cfg = Some k
    \<and> provider amb k (strip question) = Message (q_answer row # content)
    \<and> utf8_encode (get_remote_address req) = Some bytes
    \<and> questions w' = questions w @ [row]
    \<and> q_question row = strip question
    \<and> q_ip_hash row = take 16 (sha256_hexdigest bytes)
    \<and> length (q_ip_hash row) = 16
    \<and> list_all is_hexdigit (q_ip_hash row)
    \<and> (\<not> (length (get_remote_address req) = 16 \<and> list_all is_hexdigit (get_remote_address req))
          \<longrightarrow> q_ip_hash row \<noteq> get_remote_address req)
    \<and> journal w' = journal w @ [Provider_call (strip question), Question_insert row]
    \<and> thoughts w' = thoughts w"
proof -
  obtain out where out: "api_ask_limited cfg amb w req question = (out, w')"
    and r: "respond out = (200, p)"
    using assms by (auto simp: serve_def split: prod.splits if_splits)
  have adm: "fst (limiter_hit (hits w) (get_remote_address req) (now amb))"
  proof (rule ccontr)
    assume "\<not> ?thesis"
    then have "out = Inl RateLimitExceeded" using out limited_rejected by simp
    with r show False by (simp add: rate_limit_handler_def)
  qed
  let ?w1 = "w\<lparr>hits := hits w @ [(get_remote_address req, now amb)]\<rparr>"
  have ask: "api_ask cfg amb ?w1 req question = (out, w')"
    using out limited_admitted [OF adm] by simp
  have "out = Inr p"
  proof (cases out)
    case (Inl e)
    with ask obtain c d where "e = HTTPException c d" "c \<in> {400, 429, 500, 503}"
      using api_ask_status by blast
    with r Inl show ?thesis by auto
  next
    case (Inr p')
    with r show ?thesis by simp
  qed
  with ask obtain k where k: "ANTHROPIC_API_KEY cfg = Some k"
    and al: "ask_and_log amb ?w1 req k (strip question) = (Inr p, w')"
    using api_ask_ok by blast
  from ask_and_log_ok [OF al] obtain row bytes content where
    row: "p = Answer_json (q_answer row)"
      "provider amb k (strip question) = Message (q_answer row # content)"
      "utf8_encode (get_remote_address req) = Some bytes"
      "q_question row = strip question"
      "q_ip_hash row = take 16 (sha256_hexdigest bytes)"
      "questions w' = questions ?w1 @ [row]"
      "journal w' = journal ?w1 @ [Provider_call (strip question), Question_insert row]"
      "thoughts w' = thoughts ?w1"
    by blast
  have shape: "length (q_ip_hash row) = 16" "list_all is_hexdigit (q_ip_hash row)"
    using ip_hash_shape [of bytes] row(5) by simp_all
  then have "\<not> (length (get_remote_address req) = 16 \<and> list_all is_hexdigit (get_remote_address req))
          \<longrightarrow> q_ip_hash row \<noteq> get_remote_address req"
    by auto
  with row k shape show ?thesis
    by (intro exI [of _ row] exI [of _ bytes] exI [of _ k] exI [of _ content]) simp
qed

theorem api_ask_logs_once_witness:
  "fst (serve \<lparr>ADMIN_KEY = [], ANTHROPIC_API_KEY = Some (py ''sk-test'')\<rparr> init_world
      (\<lparr>now = 7, storage_ok = True, provider = provider_echo\<rparr>,
       \<lparr>authorization = None, client_host = None\<rparr>, POST_api_ask (py '' What is time? '')))
     = (200, Answer_json (py ''What is time?''))
   \<and> (\<exists>row.
        questions (snd (serve \<lparr>ADMIN_KEY = [], ANTHROPIC_API_KEY = Some (py ''sk-test'')\<rparr> init_world
          (\<lparr>now = 7, storage_ok = True, provider = provider_echo\<rparr>,
           \<lparr>authorization = None, client_host = None\<rparr>, POST_api_ask (py '' What is time? '')))) = [row]
      \<and> journal (snd (serve \<lparr>ADMIN_KEY = [], ANTHROPIC_API_KEY = Some (py ''sk-test'')\<rparr> init_world
          (\<lparr>now = 7, storage_ok = True, provider = provider_echo\<rparr>,
           \<lparr>authorization = None, client_host = None\<rparr>, POST_api_ask (py '' What is time? ''))))
          = [Provider_call (py ''What is time?''), Question_insert row]
      \<and> q_question row = py ''What is time?''
      \<and> q_answer row = py ''What is time?''
      \<and> q_ip_hash row = py ''12ca17b49af22894''
      \<and> length (q_ip_hash row) = 16
      \<and> q_ip_hash row \<noteq> py ''127.0.0.1'')"
proof -
  let ?cfg = "\<lparr>ADMIN_KEY = [], ANTHROPIC_API_KEY = Some (py ''sk-test'')\<rparr>"
  let ?x = "(\<lparr>now = 7, storage_ok = True, provider = provider_echo\<rparr>,
       \<lparr>authorization = None, client_host = None\<rparr>, POST_api_ask (py '' What is time? ''))"
  have st: "strip (py '' What is time? '') = py ''What is time?''"
    by (simp add: strip_def py_def py_isspace_def)
  have enc: "utf8_encode (get_remote_address \<lparr>authorization = None, client_host = None\<rparr>)
      = Some [49, 50, 55, 46, 48, 46, 48, 46, 49]"
    by (simp add: get_remote_address_def py_def utf8_char_def)
  have ne: "py '' What is time? '' \<noteq> []" "py ''What is time?'' \<noteq> []" "py ''sk-test'' \<noteq> []"
    and le: "\<not> 500 < length (py ''What is time?'')"
    and ok: "sqlite_text_ok (py ''What is time?'')"
    by (simp_all add: py_def sqlite_text_ok_def utf8_char_def)
  have f: "fst (serve ?cfg init_world ?x) = (200, Answer_json (py ''What is time?''))"
    by (simp add: serve_def api_ask_limited_def limiter_hit_def window_hits_def init_world_def
      api_ask_def Let_def ask_and_log_def provider_echo_def log_question_def
      st enc ne le ok ip_hash_text_ok)
  then have s: "serve ?cfg init_world ?x
      = ((200, Answer_json (py ''What is time?'')), snd (serve ?cfg init_world ?x))"
    by (simp add: prod_eq_iff)
  have addr: "\<not> (length (get_remote_address \<lparr>authorization = None, client_host = None\<rparr>) = 16
      \<and> list_all is_hexdigit (get_remote_address \<lparr>authorization = None, client_host = None\<rparr>))"
    by (simp add: get_remote_address_def py_def)
  from api_ask_logs_once [OF s] obtain row bytes k content where
    "Answer_json (py ''What is time?'') = Answer_json (q_answer row)"
    "utf8_encode (get_remote_address \<lparr>authorization = None, client_host = None\<rparr>) = Some bytes"
    "questions (snd (serve ?cfg init_world ?x)) = questions init_world @ [row]"
    "q_question row = strip (py '' What is time? '')"
    "q_ip_hash row = take 16 (sha256_hexdigest bytes)"
    "length (q_ip_hash row) = 16"
    "\<not> (length (get_remote_address \<lparr>authorization = None, client_host = None\<rparr>) = 16
      \<and> list_all is_hexdigit (get_remote_address \<lparr>authorization = None, client_host = None\<rparr>))
      \<longrightarrow> q_ip_hash row \<noteq> get_remote_address \<lparr>authorization = None, client_host = None\<rparr>"
    "journal (snd (serve ?cfg init_world ?x))
       = journal init_world @ [Provider_call (strip (py '' What is time? '')), Question_insert row]"
    by blast
  moreover have "take 16 (sha256_hexdigest [49, 50, 55, 46, 48, 46, 48, 46, 49]) = py ''12ca17b49af22894''"
    by (simp add: sha256_hexdigest_localhost) (simp add: py_def)
  ultimately show ?thesis
    using f st enc addr
    by (intro conjI exI [of _ row]) (simp_all add: init_world_def get_remote_address_def py_def)
qed

section \<open>Listing thoughts\<close>

lemma order_by_desc_sorted:
  "sorted_wrt (\<lambda>a b. t_created_at b \<le> t_created_at a) (order_by_created_at_desc rows)"
proof -
  have "sorted (map (\<lambda>r. - int (t_created_at r)) (order_by_created_at_desc rows))"
    unfolding order_by_created_at_desc_def by (rule sorted_sort_key)
  then show ?thesis by (simp add: sorted_map)
qed

lemma order_by_desc_length: "length (order_by_created_at_desc rows) = length rows"
  by (simp add: order_by_created_at_desc_def)

lemma order_by_desc_set: "set (order_by_created_at_desc rows) = set rows"
  by (simp add: order_by_created_at_desc_def)

lemma sql_limit_sorted: "sorted_wrt P rows \<Longrightarrow> sorted_wrt P (sql_limit n rows)"
  by (simp add: sql_limit_def sorted_wrt_take)

lemma sql_limit_length_nonneg: "0 \<le> n \<Longrightarrow> length (sql_limit n rows) = min (nat n) (length rows)"
  by (simp add: sql_limit_def)

lemma sql_limit_negative: "n < 0 \<Longrightarrow> sql_limit n rows = rows"
  by (simp add: sql_limit_def)

lemma sql_limit_set: "set (sql_limit n rows) \<subseteq> set rows"
  by (auto simp: sql_limit_def dest: in_set_takeD)

lemma get_thoughts_returns:
  "storage_ok amb \<Longrightarrow> sqlite_int_ok n \<Longrightarrow>
   get_thoughts amb w n = Inr (sql_limit n (order_by_created_at_desc (thoughts w)))"
  by (simp add: get_thoughts_def)

lemma get_thoughts_rows:
  "get_thoughts amb w n = Inr rows \<Longrightarrow> rows = sql_limit n (order_by_created_at_desc (thoughts w))"
  by (simp add: get_thoughts_def split: if_splits)

text \<open>
  C7. For a positive \<open>n\<close>, \<^verbatim>\<open>get_thoughts(n)\<close> returns whenever the database can be read
  and \<open>n\<close> fits a 64-bit integer, and what it returns has \<open>min n (number of thoughts)\<close>
  rows, so never more than that, all of them rows of the table, in descending order of
  \<^verbatim>\<open>created_at\<close>; it is the empty list when the table is empty.
\<close>

theorem get_thoughts_newest_first:
  assumes "0 < n"
  shows "(storage_ok amb \<and> n < 2 ^ 63 \<longrightarrow> (\<exists>rows. get_thoughts amb w n = Inr rows))
   \<and> (\<forall>rows. get_thoughts amb w n = Inr rows \<longrightarrow>
         length rows = min (nat n) (length (thoughts w))
       \<and> length rows \<le> nat n \<and> length rows \<le> length (thoughts w)
       \<and> sorted_wrt (\<lambda>a b. t_created_at b \<le> t_created_at a) rows
       \<and> set rows \<subseteq> set (thoughts w)
       \<and> (thoughts w = [] \<longrightarrow> rows = []))"
proof -
  have "sqlite_int_ok n" if "n < 2 ^ 63"
    using assms that by (simp add: sqlite_int_ok_def)
  then have a: "storage_ok amb \<and> n < 2 ^ 63 \<longrightarrow> (\<exists>rows. get_thoughts amb w n = Inr rows)"
    by (simp add: get_thoughts_returns)
  have b: "length rows = min (nat n) (length (thoughts w))
       \<and> length rows \<le> nat n \<and> length rows \<le> length (thoughts w)
       \<and> sorted_wrt (\<lambda>a b. t_created_at b \<le> t_created_at a) rows
       \<and> set rows \<subseteq> set (thoughts w)
       \<and> (thoughts w = [] \<longrightarrow> rows = [])"
    if "get_thoughts amb w n = Inr rows" for rows
  proof -
    have r: "rows = sql_limit n (order_by_created_at_desc (thoughts w))"
      using that by (rule get_thoughts_rows)
    have l: "length rows = min (nat n) (length (thoughts w))"
      using assms by (simp add: r sql_limit_length_nonneg order_by_desc_length)
    have s: "sorted_wrt (\<lambda>a b. t_created_at b \<le> t_created_at a) rows"
      unfolding r by (rule sql_limit_sorted) (rule order_by_desc_sorted)
    have m: "set rows \<subseteq> set (thoughts w)"
      unfolding r using sql_limit_set [of n "order_by_created_at_desc (thoughts w)"]
      by (simp add: order_by_desc_set)
    from l s m show ?thesis by auto
  qed
  from a b show ?thesis by blast
qed

theorem get_thoughts_newest_first_witness:
  "get_thoughts \<lparr>now = 10, storage_ok = True, provider = provider_down\<rparr> three_thoughts 2
     = Inr [\<lparr>t_id = 2, t_content = py ''two'', t_created_at = 9\<rparr>,
            \<lparr>t_id = 3, t_content = py ''three'', t_created_at = 7\<rparr>]
   \<and> sorted_wrt (\<lambda>a b. t_created_at b \<le> t_created_at a)
        [\<lparr>t_id = 2, t_content = py ''two'', t_created_at = 9\<rparr>,
         \<lparr>t_id = 3, t_content = py ''three'', t_created_at = 7\<rparr>]
   \<and> get_thoughts \<lparr>now = 10, storage_ok = True, provider = provider_down\<rparr> init_world 2 = Inr []"
proof -
  have e: "get_thoughts \<lparr>now = 10, storage_ok = True, provider = provider_down\<rparr> three_thoughts 2
     = Inr [\<lparr>t_id = 2, t_content = py ''two'', t_created_at = 9\<rparr>,
            \<lparr>t_id = 3, t_content = py ''three'', t_created_at = 7\<rparr>]"
    by (simp add: get_thoughts_def sqlite_int_ok_def sql_limit_def order_by_created_at_desc_def
        three_thoughts_def init_world_def)
  have i: "thoughts init_world = []" by (simp add: init_world_def)
  have p: "(0::int) < 2" by simp
  from get_thoughts_newest_first [OF p, of "\<lparr>now = 10, storage_ok = True, provider = provider_down\<rparr>" three_thoughts]
    get_thoughts_newest_first [OF p, of "\<lparr>now = 10, storage_ok = True, provider = provider_down\<rparr>" init_world]
    e i
  show ?thesis by auto
qed

lemma sort_key_newest_last:
  assumes "\<forall>x\<in>set xs. f r < f x"
  shows "foldr (insort_key f) xs [r] = r # foldr (insort_key f) xs []"
  using assms by (induction xs) auto

lemma order_by_desc_append_newest:
  assumes "\<forall>x\<in>set rows. t_created_at x < t_created_at r"
  shows "order_by_created_at_desc (rows @ [r]) = r # order_by_created_at_desc rows"
  using assms sort_key_newest_last [of rows "\<lambda>r. - int (t_created_at r)" r]
  by (simp add: order_by_created_at_desc_def sort_key_def)

text \<open>
  C8, as amended. For valid content, that is content which is not empty and which UTF-8
  can encode (no lone surrogate): when every stored thought has a \<^verbatim>\<open>created_at\<close> earlier
  than the second in which the new thought is inserted, \<^verbatim>\<open>add_thought(content)\<close> followed
  by \<^verbatim>\<open>get_thoughts(1)\<close> returns one row, which has that content and the identifier
  \<^verbatim>\<open>add_thought\<close> returned. Both calls are made with the database readable and writable.
\<close>

theorem add_thought_then_newest:
  assumes "content \<noteq> []" and "utf8_encode content \<noteq> None"
    and "storage_ok amb" and "storage_ok amb'"
    and "\<forall>r\<in>set (thoughts w). t_created_at r < now amb"
  shows "\<exists>i w' row. add_thought amb w content = Inr (i, w')
     \<and> get_thoughts amb' w' 1 = Inr [row]
     \<and> t_content row = content \<and> t_id row = i \<and> t_created_at row = now amb"
proof -
  define row where "row = \<lparr>t_id = next_rowid (map t_id (thoughts w)), t_content = content,
                   t_created_at = now amb\<rparr>"
  define w' where "w' = w\<lparr>thoughts := thoughts w @ [row], journal := journal w @ [Thought_insert row]\<rparr>"
  have a: "add_thought amb w content = Inr (t_id row, w')"
    using assms(2,3) by (simp add: add_thought_def sqlite_text_ok_def row_def w'_def Let_def)
  have "order_by_created_at_desc (thoughts w') = row # order_by_created_at_desc (thoughts w)"
    using assms(5) by (simp add: w'_def order_by_desc_append_newest row_def)
  then have g: "get_thoughts amb' w' 1 = Inr [row]"
    using assms(4) by (simp add: get_thoughts_def sqlite_int_ok_def sql_limit_def)
  from a g show ?thesis by (auto simp: row_def)
qed

theorem add_thought_then_newest_witness:
  "(\<exists>w'. add_thought \<lparr>now = 10, storage_ok = True, provider = provider_down\<rparr> three_thoughts (py ''four'')
          = Inr (4, w')
      \<and> get_thoughts \<lparr>now = 11, storage_ok = True, provider = provider_down\<rparr> w' 1
          = Inr [\<lparr>t_id = 4, t_content = py ''four'', t_created_at = 10\<rparr>])"
proof -
  have h: "\<forall>r\<in>set (thoughts three_thoughts). t_created_at r < now \<lparr>now = 10, storage_ok = True, provider = provider_down\<rparr>"
    by (simp add: three_thoughts_def)
  have s1: "storage_ok \<lparr>now = 10, storage_ok = True, provider = provider_down\<rparr>"
    and s2: "storage_ok \<lparr>now = 11, storage_ok = True, provider = provider_down\<rparr>" by simp_all
  have c1: "py ''four'' \<noteq> []" and c2: "utf8_encode (py ''four'') \<noteq> None"
    by (simp_all add: py_def utf8_char_def)
  from add_thought_then_newest [OF c1 c2 s1 s2 h]
  obtain i w' row where
    a: "add_thought \<lparr>now = 10, storage_ok = True, provider = provider_down\<rparr> three_thoughts (py ''four'') = Inr (i, w')"
    and g: "get_thoughts \<lparr>now = 11, storage_ok = True, provider = provider_down\<rparr> w' 1 = Inr [row]"
    and r: "t_content row = py ''four''" "t_id row = i" "t_created_at row = 10"
    by auto
  have i: "i = 4"
    using a c2 by (simp add: add_thought_def sqlite_text_ok_def three_thoughts_def next_rowid_def Let_def)
  have "row = \<lparr>t_id = 4, t_content = py ''four'', t_created_at = 10\<rparr>"
    using r i by (cases row) simp
  with a g i show ?thesis by auto
qed

text \<open>
  C8 as stated does not hold on two inputs. \<^verbatim>\<open>created_at\<close> has a resolution of one
  second and the query orders by it alone: two thoughts added within the same second have
  equal \<^verbatim>\<open>created_at\<close>, and \<^verbatim>\<open>get_thoughts(1)\<close> after the second insertion returns the
  first. And content that is not empty but holds a lone surrogate (here U+D800) cannot be
  bound to the statement: \<^verbatim>\<open>add_thought\<close> raises and stores nothing.
\<close>

theorem add_thought_then_newest_counterexample:
  "add_thought \<lparr>now = 100, storage_ok = True, provider = provider_down\<rparr> init_world (py ''first'')
     = Inr (1, \<lparr>thoughts = [\<lparr>t_id = 1, t_content = py ''first'', t_created_at = 100\<rparr>],
               questions = [], hits = [],
               journal = [Thought_insert \<lparr>t_id = 1, t_content = py ''first'', t_created_at = 100\<rparr>]\<rparr>)
   \<and> add_thought \<lparr>now = 100, storage_ok = True, provider = provider_down\<rparr>
        \<lparr>thoughts = [\<lparr>t_id = 1, t_content = py ''first'', t_created_at = 100\<rparr>],
         questions = [], hits = [],
         journal = [Thought_insert \<lparr>t_id = 1, t_content = py ''first'', t_created_at = 100\<rparr>]\<rparr>
        (py ''second'')
     = Inr (2, \<lparr>thoughts = [\<lparr>t_id = 1, t_content = py ''first'', t_created_at = 100\<rparr>,
                          \<lparr>t_id = 2, t_content = py ''second'', t_created_at = 100\<rparr>],
               questions = [], hits = [],
               journal = [Thought_insert \<lparr>t_id = 1, t_content = py ''first'', t_created_at = 100\<rparr>,
                          Thought_insert \<lparr>t_id = 2, t_content = py ''second'', t_created_at = 100\<rparr>]\<rparr>)
   \<and> get_thoughts \<lparr>now = 100, storage_ok = True, provider = provider_down\<rparr>
        \<lparr>thoughts = [\<lparr>t_id = 1, t_content = py ''first'', t_created_at = 100\<rparr>,
                    \<lparr>t_id = 2, t_content = py ''second'', t_created_at = 100\<rparr>],
         questions = [], hits = [],
         journal = [Thought_insert \<lparr>t_id = 1, t_content = py ''first'', t_created_at = 100\<rparr>,
                    Thought_insert \<lparr>t_id = 2, t_content = py ''second'', t_created_at = 100\<rparr>]\<rparr> 1
     = Inr [\<lparr>t_id = 1, t_content = py ''first'', t_created_at = 100\<rparr>]
   \<and> add_thought \<lparr>now = 100, storage_ok = True, provider = provider_down\<rparr> init_world [0xD800]
     = Inl UnicodeEncodeError"
  by (simp add: add_thought_def get_thoughts_def next_rowid_def init_world_def Let_def
      sqlite_int_ok_def sql_limit_def order_by_created_at_desc_def sqlite_text_ok_def
      utf8_char_def py_def)

section \<open>The limit of GET /api/thoughts\<close>

lemma api_get_thoughts_clamped:
  assumes "0 \<le> limit" and "api_get_thoughts amb w limit = Inr (Thoughts_json rows)"
  shows "length rows \<le> 100"
proof -
  have "get_thoughts amb w (min limit 100) = Inr rows"
    using assms(2) by (simp add: api_get_thoughts_def split: sum.splits)
  then have "rows = sql_limit (min limit 100) (order_by_created_at_desc (thoughts w))"
    by (rule get_thoughts_rows)
  then show ?thesis
    using assms(1) by (simp add: sql_limit_length_nonneg)
qed

lemma api_get_thoughts_negative:
  assumes "storage_ok amb" and "limit < 0" and "- (2 ^ 63) \<le> limit"
  shows "api_get_thoughts amb w limit = Inr (Thoughts_json (order_by_created_at_desc (thoughts w)))"
proof -
  have "min limit 100 = limit" using assms(2) by simp
  moreover have "sqlite_int_ok limit" using assms(2,3) by (simp add: sqlite_int_ok_def)
  ultimately show ?thesis
    using assms(1,2) by (simp add: api_get_thoughts_def get_thoughts_returns sql_limit_negative)
qed

text \<open>
  C9. The handler passes \<^verbatim>\<open>min(limit, 100)\<close> to \<^verbatim>\<open>get_thoughts\<close>, which bounds the limit
  from above only. For a limit that is not negative the list has at most 100 entries
  (\<open>api_get_thoughts_clamped\<close>). A negative limit stays negative, and SQLite reads a
  negative \<^verbatim>\<open>LIMIT\<close> as no limit: with 101 thoughts stored, the request with
  \<^verbatim>\<open>limit=-1\<close> is answered 200 with all 101 of them.
\<close>

theorem api_get_thoughts_negative_limit:
  "\<exists>rows.
     serve \<lparr>ADMIN_KEY = [], ANTHROPIC_API_KEY = None\<rparr> (init_world\<lparr>thoughts := many_thoughts 101\<rparr>)
       (\<lparr>now = 200, storage_ok = True, provider = provider_down\<rparr>,
        \<lparr>authorization = None, client_host = None\<rparr>, GET_api_thoughts (Some (- 1)))
       = ((200, Thoughts_json rows), init_world\<lparr>thoughts := many_thoughts 101\<rparr>)
     \<and> length rows = 101"
proof -
  have "api_get_thoughts \<lparr>now = 200, storage_ok = True, provider = provider_down\<rparr>
      (init_world\<lparr>thoughts := many_thoughts 101\<rparr>) (- 1)
    = Inr (Thoughts_json (order_by_created_at_desc (many_thoughts 101)))"
    using api_get_thoughts_negative
      [of "\<lparr>now = 200, storage_ok = True, provider = provider_down\<rparr>" "- 1"
          "init_world\<lparr>thoughts := many_thoughts 101\<rparr>"]
    by simp
  moreover have "length (order_by_created_at_desc (many_thoughts 101)) = 101"
    by (simp add: order_by_desc_length many_thoughts_def)
  ultimately show ?thesis
    by (simp add: serve_def)
qed

section \<open>The content of stored thoughts\<close>

lemma strip_trimmed: "strip s \<noteq> [] \<Longrightarrow> trimmed (strip s)"
  using strip_no_outer_space [of s] by (simp add: trimmed_def)

lemma api_add_thought_thoughts:
  "thoughts (snd (api_add_thought cfg amb w req content)) = thoughts w
   \<or> (strip content \<noteq> [] \<and> (\<exists>i. thoughts (snd (api_add_thought cfg amb w req content))
          = thoughts w @ [\<lparr>t_id = i, t_content = strip content, t_created_at = now amb\<rparr>]))"
  by (auto simp: api_add_thought_def add_thought_def Let_def split: sum.splits)

lemma api_ask_thoughts: "thoughts (snd (api_ask cfg amb w req q)) = thoughts w"
  using ask_and_log_frame
  by (auto simp: api_ask_def Let_def split: option.splits prod.splits sum.splits exn.splits)
    (metis snd_conv)+

lemma api_ask_limited_thoughts: "thoughts (snd (api_ask_limited cfg amb w req q)) = thoughts w"
  by (simp add: api_ask_limited_def api_ask_thoughts split: prod.splits bool.splits)

lemma dispatch_thoughts:
  "thoughts (snd (dispatch cfg amb w req r)) = thoughts w
   \<or> (\<exists>content i. r = POST_api_thoughts content \<and> strip content \<noteq> [] \<and>
        thoughts (snd (dispatch cfg amb w req r))
          = thoughts w @ [\<lparr>t_id = i, t_content = strip content, t_created_at = now amb\<rparr>])"
proof (cases r)
  case (POST_api_thoughts content)
  then show ?thesis using api_add_thought_thoughts [of cfg amb w req content] by auto
next
  case (GET_api_thoughts l)
  then show ?thesis by (cases l) simp_all
qed (simp_all add: api_ask_limited_thoughts)

lemma serve_thoughts:
  "thoughts (snd (serve cfg w (amb, req, r))) = thoughts (snd (dispatch cfg amb w req r))"
  by (simp add: serve_def split: prod.splits)

lemma serve_preserves: "thoughts_trimmed w \<Longrightarrow> thoughts_trimmed (snd (serve cfg w x))"
proof -
  assume inv: "thoughts_trimmed w"
  obtain amb req r where x: "x = (amb, req, r)" by (cases x)
  from dispatch_thoughts [of cfg amb w req r] show ?thesis
    using inv by (auto simp: x serve_thoughts thoughts_trimmed_def strip_trimmed)
qed

lemma serve_all_preserves: "thoughts_trimmed w \<Longrightarrow> thoughts_trimmed (serve_all cfg w xs)"
  by (induction xs arbitrary: w) (simp_all add: serve_preserves)

text \<open>
  C10. Whatever the request, the thoughts table is either left as it is or, for a POST to
  /api/thoughts only, extended by one row whose content is the trimmed form of the
  submitted content, which is not empty and has no whitespace at either end; the rows
  already stored are never changed. So every request keeps the invariant that all stored
  contents are trimmed, and it holds in every state reached from the empty store.
\<close>

theorem stored_thoughts_trimmed:
  "(thoughts (snd (serve cfg w (amb, req, r))) = thoughts w
     \<or> (\<exists>content i. r = POST_api_thoughts content \<and> trimmed (strip content) \<and>
          thoughts (snd (serve cfg w (amb, req, r)))
            = thoughts w @ [\<lparr>t_id = i, t_content = strip content, t_created_at = now amb\<rparr>]))
   \<and> (thoughts_trimmed w \<longrightarrow> thoughts_trimmed (snd (serve cfg w (amb, req, r))))
   \<and> thoughts_trimmed (serve_all cfg init_world xs)"
proof -
  have a: "thoughts (snd (serve cfg w (amb, req, r))) = thoughts w
     \<or> (\<exists>content i. r = POST_api_thoughts content \<and> trimmed (strip content) \<and>
          thoughts (snd (serve cfg w (amb, req, r)))
            = thoughts w @ [\<lparr>t_id = i, t_content = strip content, t_created_at = now amb\<rparr>])"
    using dispatch_thoughts [of cfg amb w req r] strip_trimmed
    by (auto simp: serve_thoughts)
  have "thoughts_trimmed init_world"
    by (simp add: thoughts_trimmed_def init_world_def)
  then have c: "thoughts_trimmed (serve_all cfg init_world xs)"
    by (rule serve_all_preserves)
  from a c show ?thesis by (simp add: serve_preserves)
qed

theorem stored_thoughts_trimmed_witness:
  "thoughts (snd (serve \<lparr>ADMIN_KEY = py ''s3cret'', ANTHROPIC_API_KEY = None\<rparr> init_world
      (\<lparr>now = 3, storage_ok = True, provider = provider_down\<rparr>,
       \<lparr>authorization = Some (py ''Bearer s3cret''), client_host = None\<rparr>,
       POST_api_thoughts (py ''  a thought ''))))
     = [\<lparr>t_id = 1, t_content = py ''a thought'', t_created_at = 3\<rparr>]
   \<and> thoughts_trimmed (snd (serve \<lparr>ADMIN_KEY = py ''s3cret'', ANTHROPIC_API_KEY = None\<rparr> init_world
      (\<lparr>now = 3, storage_ok = True, provider = provider_down\<rparr>,
       \<lparr>authorization = Some (py ''Bearer s3cret''), client_host = None\<rparr>,
       POST_api_thoughts (py ''  a thought ''))))
   \<and> trimmed (py ''a thought'')"
proof -
  let ?cfg = "\<lparr>ADMIN_KEY = py ''s3cret'', ANTHROPIC_API_KEY = None\<rparr>"
  let ?amb = "\<lparr>now = 3, storage_ok = True, provider = provider_down\<rparr>"
  let ?req = "\<lparr>authorization = Some (py ''Bearer s3cret''), client_host = None\<rparr>"
  have e: "thoughts (snd (serve ?cfg init_world (?amb, ?req, POST_api_thoughts (py ''  a thought ''))))
     = [\<lparr>t_id = 1, t_content = py ''a thought'', t_created_at = 3\<rparr>]"
    by (simp add: serve_def api_add_thought_def verify_admin_def header_get_def add_thought_def
        sqlite_text_ok_def utf8_char_def next_rowid_def init_world_def strip_def py_def
        py_isspace_def Let_def)
  have i: "thoughts_trimmed init_world"
    by (simp add: thoughts_trimmed_def init_world_def)
  have s: "strip (py ''  a thought '') = py ''a thought''"
    by (simp add: strip_def py_def py_isspace_def)
  from stored_thoughts_trimmed [of ?cfg init_world ?amb ?req "POST_api_thoughts (py ''  a thought '')" "[]"]
    e i s
  show ?thesis by (auto simp: init_world_def)
qed

section \<open>The rate limit of POST /api/ask\<close>

lemma api_ask_hits: "hits (snd (api_ask cfg amb w req q)) = hits w"
  using ask_and_log_frame
  by (auto simp: api_ask_def Let_def split: option.splits prod.splits sum.splits exn.splits)
    (metis snd_conv)+

lemma api_add_thought_hits: "hits (snd (api_add_thought cfg amb w req c)) = hits w"
  by (auto simp: api_add_thought_def add_thought_def Let_def split: sum.splits)

lemma window_hits_append:
  "window_hits (hs @ [(k, t')]) a t
     = window_hits hs a t @ (if k = a \<and> t < t' + 60 then [(k, t')] else [])"
  by (simp add: window_hits_def)

lemma window_hits_later_empty:
  "t1 \<le> t2 \<Longrightarrow> window_hits hs a t1 = [] \<Longrightarrow> window_hits hs a t2 = []"
  by (auto simp: window_hits_def filter_empty_conv)

lemma ask_admitted_step:
  assumes "q \<noteq> []"
    and "length (window_hits (hits w) (get_remote_address req) (now amb)) < 3"
  shows "fst (serve cfg w (amb, req, POST_api_ask q)) \<noteq> rate_limit_handler
       \<and> hits (snd (serve cfg w (amb, req, POST_api_ask q)))
           = hits w @ [(get_remote_address req, now amb)]"
proof -
  let ?w1 = "w\<lparr>hits := hits w @ [(get_remote_address req, now amb)]\<rparr>"
  have adm: "fst (limiter_hit (hits w) (get_remote_address req) (now amb))"
    using assms(2) by (simp add: limiter_hit_def)
  have s: "serve cfg w (amb, req, POST_api_ask q)
      = (respond (fst (api_ask cfg amb ?w1 req q)), snd (api_ask cfg amb ?w1 req q))"
    using assms(1) by (simp add: serve_ask limited_admitted [OF adm])
  have "respond (fst (api_ask cfg amb ?w1 req q)) \<noteq> rate_limit_handler"
  proof (cases "fst (api_ask cfg amb ?w1 req q)")
    case (Inl e)
    then have "api_ask cfg amb ?w1 req q = (Inl e, snd (api_ask cfg amb ?w1 req q))"
      by (simp add: prod_eq_iff)
    then obtain c d where "e = HTTPException c d" using api_ask_status by blast
    with Inl show ?thesis by (simp add: rate_limit_handler_def)
  next
    case (Inr p)
    then show ?thesis by (simp add: rate_limit_handler_def)
  qed
  then show ?thesis by (simp add: s api_ask_hits)
qed

lemma ask_rejected_step:
  assumes "q \<noteq> []"
    and "\<not> length (window_hits (hits w) (get_remote_address req) (now amb)) < 3"
  shows "serve cfg w (amb, req, POST_api_ask q) = (rate_limit_handler, w)"
proof -
  have "\<not> fst (limiter_hit (hits w) (get_remote_address req) (now amb))"
    using assms(2) by (simp add: limiter_hit_def)
  then show ?thesis using assms(1) by (simp add: serve_ask limited_rejected)
qed

lemma ask_served:
  assumes "q \<noteq> []"
    and "fst (serve cfg w (amb, req, POST_api_ask q)) \<noteq> rate_limit_handler"
  shows "hits (snd (serve cfg w (amb, req, POST_api_ask q)))
           = hits w @ [(get_remote_address req, now amb)]"
proof -
  have "length (window_hits (hits w) (get_remote_address req) (now amb)) < 3"
    using ask_rejected_step [OF assms(1), of w req amb cfg] assms(2) by fastforce
  then show ?thesis using ask_admitted_step [OF assms(1)] by blast
qed

lemma serve_hits:
  "hits (snd (serve cfg w (amb, req, r))) = hits (snd (dispatch cfg amb w req r))"
  by (simp add: serve_def split: prod.splits)

lemma other_step:
  assumes "\<not> asks_from a x"
  shows "window_hits (hits (snd (serve cfg w x))) a t = window_hits (hits w) a t"
proof -
  obtain amb req r where x: "x = (amb, req, r)" by (cases x)
  show ?thesis
  proof (cases r)
    case (POST_api_ask q)
    show ?thesis
    proof (cases "q = []")
      case True
      then show ?thesis by (simp add: x POST_api_ask serve_ask_empty)
    next
      case False
      with assms x POST_api_ask have ne: "get_remote_address req \<noteq> a" by simp
      show ?thesis
      proof (cases "length (window_hits (hits w) (get_remote_address req) (now amb)) < 3")
        case True
        then show ?thesis
          using ask_admitted_step [OF False, of w req amb cfg] ne
          by (simp add: x POST_api_ask window_hits_append)
      next
        case lim: False
        then show ?thesis
          using ask_rejected_step [OF False, of w req amb cfg] by (simp add: x POST_api_ask)
      qed
    qed
  next
    case (GET_api_thoughts l)
    then show ?thesis by (cases l) (simp_all add: x serve_hits)
  next
    case (POST_api_thoughts c)
    then show ?thesis by (simp add: x serve_hits api_add_thought_hits)
  qed (simp_all add: x serve_hits)
qed

lemma others_steps:
  "\<forall>x\<in>set ys. \<not> asks_from a x \<Longrightarrow>
   window_hits (hits (serve_all cfg w ys)) a t = window_hits (hits w) a t"
  by (induction ys arbitrary: w) (simp_all add: other_step)

lemma serve_all_append: "serve_all cfg w (xs @ ys) = serve_all cfg (serve_all cfg w xs) ys"
  by (induction xs arbitrary: w) simp_all

lemma after_served:
  assumes "hits (snd (serve cfg w x)) = hits w @ [(a, t1)]"
    and "\<forall>y\<in>set ys. \<not> asks_from a y"
  shows "window_hits (hits (serve_all cfg w (x # ys))) a t
           = window_hits (hits w) a t @ (if t < t1 + 60 then [(a, t1)] else [])"
  using others_steps [OF assms(2), of cfg "snd (serve cfg w x)" t]
  by (simp add: assms(1) window_hits_append)

text \<open>
  C5, as amended. Take four questions of one client address whose question field is not
  empty, in this order, the fourth less than 60 seconds after the first, with any other
  requests served in between (any request but a question of that address). When the
  limiter has admitted no question of that address during the 60 seconds before the
  first, none of the first three is answered by the rate limit handler. And when none of
  the first three is answered by the rate limit handler, the fourth is answered 429 with
  the rate limit handler's body and leaves the state exactly as it was: no request to the
  generation API and no row. Times are whole seconds.
\<close>

theorem rate_limit_three_per_minute:
  assumes addr: "get_remote_address req1 = a" "get_remote_address req2 = a"
      "get_remote_address req3 = a" "get_remote_address req4 = a"
    and asked: "q1 \<noteq> []" "q2 \<noteq> []" "q3 \<noteq> []" "q4 \<noteq> []"
    and times: "now amb1 \<le> now amb2" "now amb2 \<le> now amb3" "now amb3 \<le> now amb4"
      "now amb4 < now amb1 + 60"
    and others: "\<forall>x\<in>set ys1. \<not> asks_from a x" "\<forall>x\<in>set ys2. \<not> asks_from a x"
      "\<forall>x\<in>set ys3. \<not> asks_from a x"
  shows
    "(window_hits (hits w) a (now amb1) = [] \<longrightarrow>
        fst (serve cfg w (amb1, req1, POST_api_ask q1)) \<noteq> rate_limit_handler
      \<and> fst (serve cfg (serve_all cfg w ((amb1, req1, POST_api_ask q1) # ys1))
             (amb2, req2, POST_api_ask q2)) \<noteq> rate_limit_handler
      \<and> fst (serve cfg (serve_all cfg w ((amb1, req1, POST_api_ask q1) # ys1
               @ (amb2, req2, POST_api_ask q2) # ys2))
             (amb3, req3, POST_api_ask q3)) \<noteq> rate_limit_handler)
   \<and> (fst (serve cfg w (amb1, req1, POST_api_ask q1)) \<noteq> rate_limit_handler
      \<and> fst (serve cfg (serve_all cfg w ((amb1, req1, POST_api_ask q1) # ys1))
             (amb2, req2, POST_api_ask q2)) \<noteq> rate_limit_handler
      \<and> fst (serve cfg (serve_all cfg w ((amb1, req1, POST_api_ask q1) # ys1
               @ (amb2, req2, POST_api_ask q2) # ys2))
             (amb3, req3, POST_api_ask q3)) \<noteq> rate_limit_handler \<longrightarrow>
        serve cfg (serve_all cfg w ((amb1, req1, POST_api_ask q1) # ys1
            @ (amb2, req2, POST_api_ask q2) # ys2 @ (amb3, req3, POST_api_ask q3) # ys3))
          (amb4, req4, POST_api_ask q4)
        = ((429, Error_json (py ''Too many questions. I need time to think. Try again in a minute.'')),
           serve_all cfg w ((amb1, req1, POST_api_ask q1) # ys1
             @ (amb2, req2, POST_api_ask q2) # ys2 @ (amb3, req3, POST_api_ask q3) # ys3)))"
proof -
  let ?x1 = "(amb1, req1, POST_api_ask q1)" and ?x2 = "(amb2, req2, POST_api_ask q2)"
    and ?x3 = "(amb3, req3, POST_api_ask q3)"
  define w1 where "w1 = serve_all cfg w (?x1 # ys1)"
  define w2 where "w2 = serve_all cfg w1 (?x2 # ys2)"
  define w3 where "w3 = serve_all cfg w2 (?x3 # ys3)"
  have w2': "serve_all cfg w (?x1 # ys1 @ ?x2 # ys2) = w2"
    using serve_all_append [of cfg w "?x1 # ys1" "?x2 # ys2"] by (simp add: w1_def w2_def)
  have w3': "serve_all cfg w (?x1 # ys1 @ ?x2 # ys2 @ ?x3 # ys3) = w3"
    using serve_all_append [of cfg w "?x1 # ys1 @ ?x2 # ys2" "?x3 # ys3"] w2'
    by (simp add: w3_def)
  have c1: "window_hits (hits w1) a t = window_hits (hits w) a t
      @ (if t < now amb1 + 60 then [(a, now amb1)] else [])"
    if "hits (snd (serve cfg w ?x1)) = hits w @ [(a, now amb1)]" for t
    unfolding w1_def using that others(1) by (rule after_served)
  have c2: "window_hits (hits w2) a t = window_hits (hits w1) a t
      @ (if t < now amb2 + 60 then [(a, now amb2)] else [])"
    if "hits (snd (serve cfg w1 ?x2)) = hits w1 @ [(a, now amb2)]" for t
    unfolding w2_def using that others(2) by (rule after_served)
  have c3: "window_hits (hits w3) a t = window_hits (hits w2) a t
      @ (if t < now amb3 + 60 then [(a, now amb3)] else [])"
    if "hits (snd (serve cfg w2 ?x3)) = hits w2 @ [(a, now amb3)]" for t
    unfolding w3_def using that others(3) by (rule after_served)
  have first_three: "fst (serve cfg w ?x1) \<noteq> rate_limit_handler
      \<and> fst (serve cfg w1 ?x2) \<noteq> rate_limit_handler
      \<and> fst (serve cfg w2 ?x3) \<noteq> rate_limit_handler"
    if fresh: "window_hits (hits w) a (now amb1) = []"
  proof -
    have e2: "window_hits (hits w) a (now amb2) = []"
      and e3: "window_hits (hits w) a (now amb3) = []"
      using window_hits_later_empty fresh times by (meson order_trans)+
    have s1: "fst (serve cfg w ?x1) \<noteq> rate_limit_handler"
      and h1: "hits (snd (serve cfg w ?x1)) = hits w @ [(a, now amb1)]"
      using ask_admitted_step [OF asked(1), of w req1 amb1 cfg] fresh addr(1) by simp_all
    have n2: "length (window_hits (hits w1) (get_remote_address req2) (now amb2)) < 3"
      by (simp add: addr c1 [OF h1] e2)
    have s2: "fst (serve cfg w1 ?x2) \<noteq> rate_limit_handler"
      and h2: "hits (snd (serve cfg w1 ?x2)) = hits w1 @ [(a, now amb2)]"
      using ask_admitted_step [OF asked(2) n2, of cfg] addr(2) by simp_all
    have n3: "length (window_hits (hits w2) (get_remote_address req3) (now amb3)) < 3"
      by (simp add: addr c2 [OF h2] c1 [OF h1] e3)
    have s3: "fst (serve cfg w2 ?x3) \<noteq> rate_limit_handler"
      using ask_admitted_step [OF asked(3) n3, of cfg] by simp
    from s1 s2 s3 show ?thesis by simp
  qed
  have fourth: "serve cfg w3 (amb4, req4, POST_api_ask q4) = (rate_limit_handler, w3)"
    if s1: "fst (serve cfg w ?x1) \<noteq> rate_limit_handler"
      and s2: "fst (serve cfg w1 ?x2) \<noteq> rate_limit_handler"
      and s3: "fst (serve cfg w2 ?x3) \<noteq> rate_limit_handler"
  proof -
    have h1: "hits (snd (serve cfg w ?x1)) = hits w @ [(a, now amb1)]"
      using ask_served [OF asked(1) s1] addr(1) by simp
    have h2: "hits (snd (serve cfg w1 ?x2)) = hits w1 @ [(a, now amb2)]"
      using ask_served [OF asked(2) s2] addr(2) by simp
    have h3: "hits (snd (serve cfg w2 ?x3)) = hits w2 @ [(a, now amb3)]"
      using ask_served [OF asked(3) s3] addr(3) by simp
    have "length (window_hits (hits w3) (get_remote_address req4) (now amb4))
        = length (window_hits (hits w) a (now amb4)) + 3"
      using times by (simp add: addr c3 [OF h3] c2 [OF h2] c1 [OF h1])
    then have "\<not> length (window_hits (hits w3) (get_remote_address req4) (now amb4)) < 3"
      by simp
    then show ?thesis by (rule ask_rejected_step [OF asked(4)])
  qed
  show ?thesis
    using first_three fourth
    by (simp only: w2' w3' flip: w1_def) (simp add: rate_limit_handler_def)
qed

theorem rate_limit_three_per_minute_witness:
  "fst (serve \<lparr>ADMIN_KEY = [], ANTHROPIC_API_KEY = None\<rparr> init_world
      (\<lparr>now = 0, storage_ok = True, provider = provider_down\<rparr>,
       \<lparr>authorization = None, client_host = Some (py ''203.0.113.7'')\<rparr>, POST_api_ask (py ''one'')))
     \<noteq> rate_limit_handler
   \<and> fst (serve \<lparr>ADMIN_KEY = [], ANTHROPIC_API_KEY = None\<rparr>
      (serve_all \<lparr>ADMIN_KEY = [], ANTHROPIC_API_KEY = None\<rparr> init_world
        ((\<lparr>now = 0, storage_ok = True, provider = provider_down\<rparr>,
          \<lparr>authorization = None, client_host = Some (py ''203.0.113.7'')\<rparr>, POST_api_ask (py ''one''))
         # [(\<lparr>now = 5, storage_ok = True, provider = provider_down\<rparr>,
             \<lparr>authorization = None, client_host = Some (py ''198.51.100.2'')\<rparr>,
             POST_api_ask (py ''other''))]))
      (\<lparr>now = 10, storage_ok = True, provider = provider_down\<rparr>,
       \<lparr>authorization = None, client_host = Some (py ''203.0.113.7'')\<rparr>, POST_api_ask (py ''two'')))
     \<noteq> rate_limit_handler
   \<and> fst (serve \<lparr>ADMIN_KEY = [], ANTHROPIC_API_KEY = None\<rparr>
      (serve_all \<lparr>ADMIN_KEY = [], ANTHROPIC_API_KEY = None\<rparr> init_world
        ((\<lparr>now = 0, storage_ok = True, provider = provider_down\<rparr>,
          \<lparr>authorization = None, client_host = Some (py ''203.0.113.7'')\<rparr>, POST_api_ask (py ''one''))
         # [(\<lparr>now = 5, storage_ok = True, provider = provider_down\<rparr>,
             \<lparr>authorization = None, client_host = Some (py ''198.51.100.2'')\<rparr>,
             POST_api_ask (py ''other''))]
         @ (\<lparr>now = 10, storage_ok = True, provider = provider_down\<rparr>,
            \<lparr>authorization = None, client_host = Some (py ''203.0.113.7'')\<rparr>, POST_api_ask (py ''two''))
         # []))
      (\<lparr>now = 20, storage_ok = True, provider = provider_down\<rparr>,
       \<lparr>authorization = None, client_host = Some (py ''203.0.113.7'')\<rparr>, POST_api_ask (py ''three'')))
     \<noteq> rate_limit_handler
   \<and> fst (serve \<lparr>ADMIN_KEY = [], ANTHROPIC_API_KEY = None\<rparr>
      (serve_all \<lparr>ADMIN_KEY = [], ANTHROPIC_API_KEY = None\<rparr> init_world
        ((\<lparr>now = 0, storage_ok = True, provider = provider_down\<rparr>,
          \<lparr>authorization = None, client_host = Some (py ''203.0.113.7'')\<rparr>, POST_api_ask (py ''one''))
         # [(\<lparr>now = 5, storage_ok = True, provider = provider_down\<rparr>,
             \<lparr>authorization = None, client_host = Some (py ''198.51.100.2'')\<rparr>,
             POST_api_ask (py ''other''))]
         @ (\<lparr>now = 10, storage_ok = True, provider = provider_down\<rparr>,
            \<lparr>authorization = None, client_host = Some (py ''203.0.113.7'')\<rparr>, POST_api_ask (py ''two''))
         # []
         @ (\<lparr>now = 20, storage_ok = True, provider = provider_down\<rparr>,
            \<lparr>authorization = None, client_host = Some (py ''203.0.113.7'')\<rparr>, POST_api_ask (py ''three''))
         # []))
      (\<lparr>now = 59, storage_ok = True, provider = provider_down\<rparr>,
       \<lparr>authorization = None, client_host = Some (py ''203.0.113.7'')\<rparr>, POST_api_ask (py ''four'')))
     = (429, Error_json (py ''Too many questions. I need time to think. Try again in a minute.''))"
proof -
  have a: "get_remote_address \<lparr>authorization = None, client_host = Some (py ''203.0.113.7'')\<rparr>
      = py ''203.0.113.7''"
    by (simp add: get_remote_address_def py_def)
  have f: "window_hits (hits init_world) (py ''203.0.113.7'')
      (now \<lparr>now = 0, storage_ok = True, provider = provider_down\<rparr>) = []"
    by (simp add: window_hits_def init_world_def)
  have o: "\<forall>x\<in>set [(\<lparr>now = 5, storage_ok = True, provider = provider_down\<rparr>,
             \<lparr>authorization = None, client_host = Some (py ''198.51.100.2'')\<rparr>,
             POST_api_ask (py ''other''))]. \<not> asks_from (py ''203.0.113.7'') x"
    by (simp add: get_remote_address_def py_def)
  have e: "\<forall>x\<in>set ([] :: (ambient \<times> request \<times> route) list). \<not> asks_from (py ''203.0.113.7'') x"
    by simp
  have q: "py ''one'' \<noteq> []" "py ''two'' \<noteq> []" "py ''three'' \<noteq> []" "py ''four'' \<noteq> []"
    by (simp_all add: py_def)
  have t: "now \<lparr>now = 0, storage_ok = True, provider = provider_down\<rparr>
        \<le> now \<lparr>now = 10, storage_ok = True, provider = provider_down\<rparr>"
      "now \<lparr>now = 10, storage_ok = True, provider = provider_down\<rparr>
        \<le> now \<lparr>now = 20, storage_ok = True, provider = provider_down\<rparr>"
      "now \<lparr>now = 20, storage_ok = True, provider = provider_down\<rparr>
        \<le> now \<lparr>now = 59, storage_ok = True, provider = provider_down\<rparr>"
      "now \<lparr>now = 59, storage_ok = True, provider = provider_down\<rparr>
        < now \<lparr>now = 0, storage_ok = True, provider = provider_down\<rparr> + 60"
    by simp_all
  from rate_limit_three_per_minute [OF a a a a q t o e e,
      of init_world "\<lparr>ADMIN_KEY = [], ANTHROPIC_API_KEY = None\<rparr>"] f
  show ?thesis by simp
qed

text \<open>
  C5 as stated does not hold on two inputs. After three questions of one address admitted
  at seconds 0, 1 and 2, its question at second 50 is the first, and the only, question
  of the 60 seconds that start at second 3, and it is answered 429: the first three
  questions of a rolling window are admitted only when the window follows 60 seconds
  without an admitted question. And a fourth request within the minute whose question
  field is empty is answered 422 by the framework, not 429.
\<close>

theorem rate_limit_three_per_minute_counterexample:
  "fst (serve \<lparr>ADMIN_KEY = [], ANTHROPIC_API_KEY = None\<rparr>
         (serve_all \<lparr>ADMIN_KEY = [], ANTHROPIC_API_KEY = None\<rparr> init_world
            [(\<lparr>now = 0, storage_ok = True, provider = provider_down\<rparr>,
              \<lparr>authorization = None, client_host = Some (py ''203.0.113.7'')\<rparr>,
              POST_api_ask (py ''one'')),
             (\<lparr>now = 1, storage_ok = True, provider = provider_down\<rparr>,
              \<lparr>authorization = None, client_host = Some (py ''203.0.113.7'')\<rparr>,
              POST_api_ask (py ''two'')),
             (\<lparr>now = 2, storage_ok = True, provider = provider_down\<rparr>,
              \<lparr>authorization = None, client_host = Some (py ''203.0.113.7'')\<rparr>,
              POST_api_ask (py ''three''))])
         (\<lparr>now = 50, storage_ok = True, provider = provider_down\<rparr>,
          \<lparr>authorization = None, client_host = Some (py ''203.0.113.7'')\<rparr>,
          POST_api_ask (py ''four'')))
     = (429, Error_json (py ''Too many questions. I need time to think. Try again in a minute.''))
   \<and> fst (serve \<lparr>ADMIN_KEY = [], ANTHROPIC_API_KEY = None\<rparr>
         (serve_all \<lparr>ADMIN_KEY = [], ANTHROPIC_API_KEY = None\<rparr> init_world
            [(\<lparr>now = 0, storage_ok = True, provider = provider_down\<rparr>,
              \<lparr>authorization = None, client_host = Some (py ''203.0.113.7'')\<rparr>,
              POST_api_ask (py ''one'')),
             (\<lparr>now = 1, storage_ok = True, provider = provider_down\<rparr>,
              \<lparr>authorization = None, client_host = Some (py ''203.0.113.7'')\<rparr>,
              POST_api_ask (py ''two'')),
             (\<lparr>now = 2, storage_ok = True, provider = provider_down\<rparr>,
              \<lparr>authorization = None, client_host = Some (py ''203.0.113.7'')\<rparr>,
              POST_api_ask (py ''three''))])
         (\<lparr>now = 3, storage_ok = True, provider = provider_down\<rparr>,
          \<lparr>authorization = None, client_host = Some (py ''203.0.113.7'')\<rparr>,
          POST_api_ask []))
     = (422, Validation_errors_json)"
  by (simp add: serve_def api_ask_limited_def limiter_hit_def window_hits_def init_world_def
      get_remote_address_def api_ask_def strip_def py_def py_isspace_def Let_def
      rate_limit_handler_def)

end
